theory Spec2Isabelle
  imports Main "HOL-Library.Sublist"
begin

section \<open>JavaScript values\<close>

text \<open>
  The program is a browser script (\<^verbatim>\<open>src/main.js\<close>). It receives JSON from the GitHub REST
  API and turns it into HTML text. The values it handles are the results of
  \<^verbatim>\<open>response.json()\<close>, and \<^verbatim>\<open>undefined\<close>, which reading a missing property yields.

  Strings are modelled as \<^typ>\<open>string\<close>; a \<^typ>\<open>char\<close> stands for one code unit below 256.
  Numbers are kept abstract (type parameter \<open>'n\<close>): the script never computes with a number,
  it only converts numbers to text and tests one for truth, and both operations are taken
  from the platform.
\<close>

datatype 'n jsval =
    JUndefined
  | JNull
  | JBool bool
  | JNum 'n
  | JStr string
  | JArr "'n jsval list"
  | JObj "(string \<times> 'n jsval) list"

text \<open>
  The exceptions that can arise while the script runs: \<^verbatim>\<open>new Error(message)\<close> (line 45),
  the \<^verbatim>\<open>TypeError\<close> with which \<^verbatim>\<open>fetch\<close> rejects and which the engine throws on
  \<^verbatim>\<open>null.x\<close>, on calling what is not a function and on converting an object without a
  usable \<^verbatim>\<open>toString\<close>, and the \<^verbatim>\<open>SyntaxError\<close> with which \<^verbatim>\<open>response.json()\<close> rejects.
  Engine messages differ between browsers and are not modelled.
\<close>

datatype js_error = Error string | TypeError | SyntaxError

text \<open>
  What the script uses of the platform and does not define itself: number formatting,
  the truth value of a number, and \<^verbatim>\<open>Date\<close> with \<^verbatim>\<open>toLocaleDateString("en-US", ...)\<close> for the
  two option sets of lines 84-88 (long month) and 93-96 (short month). The date functions
  take the primitive value the \<^verbatim>\<open>Date\<close> constructor is left with; they depend on the
  browser's time zone, which is fixed with the platform.
\<close>

record 'n platform =
  numberToString :: "'n \<Rightarrow> string"
  numberTruthy :: "'n \<Rightarrow> bool"
  longDate :: "'n jsval \<Rightarrow> string"
  shortDate :: "'n jsval \<Rightarrow> string"

text \<open>\<^verbatim>\<open>ToBoolean\<close>, as used by \<^verbatim>\<open>||\<close>, \<^verbatim>\<open>? :\<close> and \<^verbatim>\<open>if\<close>.\<close>

fun toBoolean :: "'n platform \<Rightarrow> 'n jsval \<Rightarrow> bool" where
  "toBoolean p JUndefined = False"
| "toBoolean p JNull = False"
| "toBoolean p (JBool b) = b"
| "toBoolean p (JNum n) = numberTruthy p n"
| "toBoolean p (JStr s) = (s \<noteq> [])"
| "toBoolean p (JArr xs) = True"
| "toBoolean p (JObj kvs) = True"

text \<open>The expression \<^verbatim>\<open>a || b\<close>.\<close>

definition orElse :: "'n platform \<Rightarrow> 'n jsval \<Rightarrow> 'n jsval \<Rightarrow> 'n jsval" where
  "orElse p a b = (if toBoolean p a then a else b)"

text \<open>
  Reading a property, \<^verbatim>\<open>v.k\<close>. On \<^verbatim>\<open>null\<close> and \<^verbatim>\<open>undefined\<close> it throws. An object parsed
  from JSON has the members of its text as own properties (the list of a \<open>JObj\<close> holds
  them as \<^verbatim>\<open>JSON.parse\<close> leaves them; a name is looked up from the front); every other
  value has none of the property names this script reads (\<^verbatim>\<open>login\<close>, \<^verbatim>\<open>name\<close>, \<^verbatim>\<open>bio\<close>,
  ...: none is a property of the built-in prototypes), so the result is \<^verbatim>\<open>undefined\<close>.
\<close>

definition field :: "(string \<times> 'n jsval) list \<Rightarrow> string \<Rightarrow> 'n jsval" where
  "field kvs k = (case map_of kvs k of None \<Rightarrow> JUndefined | Some v \<Rightarrow> v)"

fun getProp :: "'n jsval \<Rightarrow> string \<Rightarrow> js_error + 'n jsval" where
  "getProp JUndefined k = Inl TypeError"
| "getProp JNull k = Inl TypeError"
| "getProp (JObj kvs) k = Inr (field kvs k)"
| "getProp v k = Inr JUndefined"

text \<open>
  \<^verbatim>\<open>ToString\<close>, which a template literal applies to each substitution. An array is joined
  with commas, \<^verbatim>\<open>null\<close> and \<^verbatim>\<open>undefined\<close> elements giving the empty string. A plain object
  gives \<^verbatim>\<open>[object Object]\<close>, unless its JSON text had a member named \<^verbatim>\<open>toString\<close>: that own
  property hides \<^verbatim>\<open>Object.prototype.toString\<close> and is not callable, and the conversion
  throws a \<^verbatim>\<open>TypeError\<close>.
\<close>

fun toStr :: "'n platform \<Rightarrow> 'n jsval \<Rightarrow> js_error + string"
  and joinComma :: "'n platform \<Rightarrow> 'n jsval list \<Rightarrow> js_error + string" where
  "toStr p JUndefined = Inr ''undefined''"
| "toStr p JNull = Inr ''null''"
| "toStr p (JBool b) = Inr (if b then ''true'' else ''false'')"
| "toStr p (JNum n) = Inr (numberToString p n)"
| "toStr p (JStr s) = Inr s"
| "toStr p (JArr xs) = joinComma p xs"
| "toStr p (JObj kvs) =
     (if map_of kvs ''toString'' = None then Inr ''[object Object]'' else Inl TypeError)"
| "joinComma p [] = Inr []"
| "joinComma p (x # xs) =
     (case (if x = JUndefined \<or> x = JNull then Inr [] else toStr p x) of
        Inl e \<Rightarrow> Inl e
      | Inr s \<Rightarrow>
          (if xs = [] then Inr s
           else case joinComma p xs of Inl e \<Rightarrow> Inl e | Inr r \<Rightarrow> Inr (s @ '','' @ r)))"

text \<open>
  \<^verbatim>\<open>new Date(v).toLocaleDateString("en-US", options)\<close>: the constructor first converts an
  object or array to a primitive, which for values parsed from JSON is their \<^verbatim>\<open>ToString\<close>
  (and throws when that does); the platform formats the primitive. An unparseable date
  is not an exception: the platform's text for it is \<^verbatim>\<open>Invalid Date\<close>.
\<close>

fun toPrimitive :: "'n platform \<Rightarrow> 'n jsval \<Rightarrow> js_error + 'n jsval" where
  "toPrimitive p (JArr xs) = map_sum id JStr (toStr p (JArr xs))"
| "toPrimitive p (JObj kvs) = map_sum id JStr (toStr p (JObj kvs))"
| "toPrimitive p v = Inr v"

definition formatDate :: "('n jsval \<Rightarrow> string) \<Rightarrow> 'n platform \<Rightarrow> 'n jsval \<Rightarrow> js_error + string" where
  "formatDate fmt p v = map_sum id fmt (toPrimitive p v)"

text \<open>
  A template literal is a sequence of literal chunks and substitutions, evaluated from left
  to right; the first substitution that throws ends the evaluation.
\<close>

datatype piece = Lit string | Sub "js_error + string"

fun template :: "piece list \<Rightarrow> js_error + string" where
  "template [] = Inr []"
| "template (Lit s # ps) = map_sum id (\<lambda>r. s @ r) (template ps)"
| "template (Sub (Inl e) # ps) = Inl e"
| "template (Sub (Inr s) # ps) = map_sum id (\<lambda>r. s @ r) (template ps)"

text \<open>The substitution \<^verbatim>\<open>${v.k}\<close>.\<close>

definition propStr :: "'n platform \<Rightarrow> 'n jsval \<Rightarrow> string \<Rightarrow> js_error + string" where
  "propStr p v k = (case getProp v k of Inl e \<Rightarrow> Inl e | Inr x \<Rightarrow> toStr p x)"

text \<open>The substitution \<^verbatim>\<open>${v.k || "literal"}\<close>.\<close>

definition propOr :: "'n platform \<Rightarrow> 'n jsval \<Rightarrow> string \<Rightarrow> string \<Rightarrow> js_error + string" where
  "propOr p v k fallback =
     (case getProp v k of Inl e \<Rightarrow> Inl e | Inr x \<Rightarrow> toStr p (orElse p x (JStr fallback)))"

section \<open>The HTML of the templates\<close>

text \<open>
  The literal chunks of the three template literals of \<^verbatim>\<open>src/main.js\<close>, character by
  character, line breaks and indentation included. A chunk ends where a substitution
  starts; some chunks are cut once more at the tag that encloses a substitution, so that
  the enclosing element can be named.
\<close>

definition errorPanel :: string where \<comment> \<open>the template literal of lines 60-71\<close>
  \<open>errorPanel = ''
      <div class="bg-[#161b22] border border-[#30363d] rounded-xl p-10 text-center shadow-lg max-w-lg mx-auto">
        <div class="inline-flex items-center justify-center w-16 h-16 rounded-full bg-[#30363d] text-[#8b949e] mb-6">
          <svg xmlns="http://www.w3.org/2000/svg" fill="none" viewBox="0 0 24 24" stroke-width="1.5" stroke="currentColor" class="w-8 h-8">
            <path stroke-linecap="round" stroke-linejoin="round" d="M21 21l-5.197-5.197m0 0A7.5 7.5 0 105.196 5.196a7.5 7.5 0 0010.607 10.607z" />
          </svg>
        </div>
        <h3 class="text-xl font-bold text-[#f0f6fc] mb-2">User not found</h3>
        <p class="text-[#8b949e] text-base">
            The username you entered doesn't seem to exist on GitHub. <br>Please check the spelling and try again.
        </p>
      </div>''\<close>

definition card_1 :: string where \<comment> \<open>card template, up to the first substitution\<close>
  \<open>card_1 = ''
      <a href="''\<close>

definition card_2 :: string where \<comment> \<open>between repo.html_url and repo.name\<close>
  \<open>card_2 = ''" target="_blank" class="bg-[#161b22] p-6 rounded-xl border border-[#30363d] hover:border-[#58a6ff] transition-all group flex flex-col h-full shadow-sm text-left">
        
        <div class="flex justify-between items-start mb-3">
          <h3 class="text-[#58a6ff] font-bold text-xl group-hover:underline truncate pr-2">''\<close>

definition card_3 :: string where \<comment> \<open>between repo.name and repo.visibility\<close>
  \<open>card_3 = ''</h3>
          <span class="text-xs border border-[#30363d] text-[#8b949e] px-2.5 py-0.5 rounded-full font-medium whitespace-nowrap">''\<close>

definition card_4 :: string where \<comment> \<open>after repo.visibility, up to the description paragraph\<close>
  \<open>card_4 = ''</span>
        </div>
        
        ''\<close>

definition description_open :: string where \<comment> \<open>the opening tag of the description paragraph\<close>
  \<open>description_open = ''<p class="text-[#8b949e] text-base mb-6 line-clamp-2 flex-grow">''\<close>

definition paragraph_close :: string where \<comment> \<open>the closing tag of a paragraph\<close>
  \<open>paragraph_close = ''</p>''\<close>

definition card_5 :: string where \<comment> \<open>after the description paragraph, up to the language slot\<close>
  \<open>card_5 = ''
        
        <div class="flex items-center gap-5 text-sm text-[#8b949e] mt-auto">
          ''\<close>

definition card_6 :: string where \<comment> \<open>between the language slot and repo.stargazers_count\<close>
  \<open>card_6 = ''
          
          <div class="flex items-center gap-1.5 hover:text-[#58a6ff]">
            <svg aria-hidden="true" height="16" viewBox="0 0 16 16" width="16" class="fill-current"><path d="M8 .25a.75.75 0 0 1 .673.418l1.882 3.815 4.21.612a.75.75 0 0 1 .416 1.279l-3.046 2.97.719 4.192a.75.75 0 0 1-1.088.791L8 12.347l-3.766 1.98a.75.75 0 0 1-1.088-.79l.72-4.194L.818 6.374a.75.75 0 0 1 .416-1.28l4.21-.611L7.327.668A.75.75 0 0 1 8 .25Z"></path></svg>
            ''\<close>

definition card_7 :: string where \<comment> \<open>between repo.stargazers_count and repo.forks_count\<close>
  \<open>card_7 = ''
          </div>
          
          <div class="flex items-center gap-1.5 hover:text-[#58a6ff]">
            <svg aria-hidden="true" height="16" viewBox="0 0 16 16" width="16" class="fill-current"><path d="M5 5.372v.878c0 .414.336.75.75.75h4.5a.75.75 0 0 0 .75-.75v-.878a2.25 2.25 0 1 1 1.5 0v.878a2.25 2.25 0 0 1-2.25 2.25h-1.5v2.128a2.251 2.251 0 1 1-1.5 0V8.5h-1.5A2.25 2.25 0 0 1 3.5 6.25v-.878a2.25 2.25 0 1 1 1.5 0ZM5 3.25a.75.75 0 1 0-1.5 0 .75.75 0 0 0 1.5 0Zm6.75.75a.75.75 0 1 0 0-1.5.75.75 0 0 0 0 1.5Zm-3 8.75a.75.75 0 1 0-1.5 0 .75.75 0 0 0 1.5 0Z"></path></svg>
            ''\<close>

definition card_8 :: string where \<comment> \<open>between repo.forks_count and updatedDate\<close>
  \<open>card_8 = ''
          </div>
          
          <div class="ml-auto whitespace-nowrap text-xs">Updated on ''\<close>

definition card_9 :: string where \<comment> \<open>card template, after the last substitution\<close>
  \<open>card_9 = ''</div>
        </div>
      </a>
    ''\<close>

definition language_open :: string where \<comment> \<open>nested template of the language indicator, before repo.language\<close>
  \<open>language_open = ''<div class="flex items-center gap-1.5"><span class="w-3 h-3 rounded-full bg-yellow-400"></span>''\<close>

definition language_close :: string where \<comment> \<open>nested template of the language indicator, after repo.language\<close>
  \<open>language_close = ''</div>''\<close>

definition page_1 :: string where \<comment> \<open>page template, up to the first substitution\<close>
  \<open>page_1 = ''
    <div class="w-full max-w-7xl mx-auto space-y-8">
      
      <div class="bg-[#161b22] rounded-xl overflow-hidden shadow-xl border border-[#30363d]">
        
        <div class="h-32 bg-[#161b22] relative">
            <div class="absolute top-4 right-4">
                <a href="''\<close>

definition page_2 :: string where \<comment> \<open>between user.html_url and user.avatar_url\<close>
  \<open>page_2 = ''" target="_blank" class="flex items-center gap-2 bg-black/30 hover:bg-black/50 text-white px-3 py-1.5 rounded-md text-xs font-semibold transition-all border border-white/20">
                    View on GitHub
                    <svg xmlns="http://www.w3.org/2000/svg" fill="none" viewBox="0 0 24 24" stroke-width="2" stroke="currentColor" class="w-4 h-4"><path stroke-linecap="round" stroke-linejoin="round" d="M13.5 6H5.25A2.25 2.25 0 003 8.25v10.5A2.25 2.25 0 005.25 21h10.5A2.25 2.25 0 0018 18.75V10.5m-10.5 6L21 3m0 0h-5.25M21 3v5.25" /></svg>
                </a>
            </div>
        </div>

        <div class="px-6 pb-6 md:px-10 md:pb-10">
          <div class="flex flex-col md:flex-row gap-8 relative">
              
              <div class="-mt-12 flex-shrink-0">
                  <img src="''\<close>

definition page_3 :: string where \<comment> \<open>between user.avatar_url and user.login\<close>
  \<open>page_3 = ''" alt="''\<close>

definition page_4 :: string where \<comment> \<open>after user.login, up to the heading\<close>
  \<open>page_4 = ''" class="w-32 h-32 rounded-full border-[4px] border-[#161b22] bg-[#161b22] shadow-sm">
              </div>
              
              <div class="flex-1 mt-3 w-full text-left">
                  
                  <div class="flex flex-col md:flex-row justify-between items-start md:items-center mb-3">
                      <div>
                          ''\<close>

definition name_open :: string where \<comment> \<open>the opening tag of the heading that shows the name\<close>
  \<open>name_open = ''<h2 class="text-4xl font-bold text-[#f0f6fc] tracking-tight">''\<close>

definition name_close :: string where \<comment> \<open>the closing tag of the heading\<close>
  \<open>name_close = ''</h2>''\<close>

definition page_5 :: string where \<comment> \<open>after the heading, up to the second user.login\<close>
  \<open>page_5 = ''
                          <p class="text-[#58a6ff] text-xl">@''\<close>

definition page_6 :: string where \<comment> \<open>between user.login and joinedDate\<close>
  \<open>page_6 = ''</p>
                      </div>
                      <div class="mt-2 md:mt-0 text-[#8b949e] text-sm bg-[#0d1117] px-3 py-1.5 rounded-full border border-[#30363d] shadow-sm">
                          Joined on ''\<close>

definition page_7 :: string where \<comment> \<open>after joinedDate, up to the bio paragraph\<close>
  \<open>page_7 = ''
                      </div>
                  </div>
                  
                  ''\<close>

definition bio_open :: string where \<comment> \<open>the opening tag of the bio paragraph\<close>
  \<open>bio_open = ''<p class="text-[#c9d1d9] italic leading-relaxed text-lg mb-8 max-w-4xl">''\<close>

definition page_8 :: string where \<comment> \<open>after the bio paragraph, up to user.public_repos\<close>
  \<open>page_8 = ''
                  
                  <div class="grid grid-cols-2 md:grid-cols-4 gap-6">
                      <div class="bg-[#0d1117] p-5 rounded-lg flex flex-col items-center justify-center border border-[#30363d]">
                          <div class="mb-2 text-[#58a6ff]"><svg xmlns="http://www.w3.org/2000/svg" fill="none" viewBox="0 0 24 24" stroke-width="1.5" stroke="currentColor" class="w-7 h-7"><path stroke-linecap="round" stroke-linejoin="round" d="M12 6.042A8.967 8.967 0 006 3.75c-1.052 0-2.062.18-3 .512v14.25A8.987 8.987 0 016 18c2.305 0 4.408.867 6 2.292m0-14.25a8.966 8.966 0 016-2.292c1.052 0 2.062.18 3 .512v14.25A8.987 8.987 0 0018 18a8.967 8.967 0 00-6 2.292m0-14.25v14.25" /></svg></div>
                          <span class="text-2xl font-bold text-[#f0f6fc]">''\<close>

definition page_9 :: string where \<comment> \<open>between user.public_repos and user.followers\<close>
  \<open>page_9 = ''</span>
                          <span class="text-xs uppercase tracking-wider text-[#8b949e] font-semibold mt-1">Repos</span>
                      </div>

                      <div class="bg-[#0d1117] p-5 rounded-lg flex flex-col items-center justify-center border border-[#30363d]">
                          <div class="mb-2 text-[#3fb950]"><svg xmlns="http://www.w3.org/2000/svg" fill="none" viewBox="0 0 24 24" stroke-width="1.5" stroke="currentColor" class="w-7 h-7"><path stroke-linecap="round" stroke-linejoin="round" d="M15 19.128a9.38 9.38 0 002.625.372 9.337 9.337 0 004.121-.952 4.125 4.125 0 00-7.533-2.493M15 19.128v-.003c0-1.113-.285-2.16-.786-3.07M15 19.128v.106A12.318 12.318 0 018.624 21c-2.331 0-4.512-.645-6.374-1.766l-.001-.109a6.375 6.375 0 0111.964-3.07M12 6.375a3.375 3.375 0 11-6.75 0 3.375 3.375 0 016.75 0zm8.25 2.25a2.625 2.625 0 11-5.25 0 2.625 2.625 0 015.25 0z" /></svg></div>
                          <span class="text-2xl font-bold text-[#f0f6fc]">''\<close>

definition page_10 :: string where \<comment> \<open>between user.followers and user.following\<close>
  \<open>page_10 = ''</span>
                          <span class="text-xs uppercase tracking-wider text-[#8b949e] font-semibold mt-1">Followers</span>
                      </div>

                      <div class="bg-[#0d1117] p-5 rounded-lg flex flex-col items-center justify-center border border-[#30363d]">
                          <div class="mb-2 text-[#a371f7]"><svg xmlns="http://www.w3.org/2000/svg" fill="none" viewBox="0 0 24 24" stroke-width="1.5" stroke="currentColor" class="w-7 h-7"><path stroke-linecap="round" stroke-linejoin="round" d="M19 7.5v3m0 0v3m0-3h3m-3 0h-3m-2.25-4.125a3.375 3.375 0 11-6.75 0 3.375 3.375 0 016.75 0zM4 19.235v-.11a6.375 6.375 0 0112.75 0v.109A12.318 12.318 0 0110.374 21c-2.331 0-4.512-.645-6.374-1.766z" /></svg></div>
                          <span class="text-2xl font-bold text-[#f0f6fc]">''\<close>

definition page_11 :: string where \<comment> \<open>after user.following, up to the location span\<close>
  \<open>page_11 = ''</span>
                          <span class="text-xs uppercase tracking-wider text-[#8b949e] font-semibold mt-1">Following</span>
                      </div>

                      <div class="bg-[#0d1117] p-5 rounded-lg flex flex-col items-center justify-center border border-[#30363d]">
                          <div class="mb-2 text-[#f78166]"><svg xmlns="http://www.w3.org/2000/svg" fill="none" viewBox="0 0 24 24" stroke-width="1.5" stroke="currentColor" class="w-7 h-7"><path stroke-linecap="round" stroke-linejoin="round" d="M15 10.5a3 3 0 11-6 0 3 3 0 016 0z" />
                                  <path stroke-linecap="round" stroke-linejoin="round" d="M19.5 10.5c0 7.142-7.5 11.25-7.5 11.25S4.5 17.642 4.5 10.5a7.5 7.5 0 0115 0z" /></svg></div>
                          ''\<close>

definition location_open :: string where \<comment> \<open>the opening tag of the location span\<close>
  \<open>location_open = ''<span class="text-lg font-bold text-[#f0f6fc] truncate max-w-full px-1">''\<close>

definition location_close :: string where \<comment> \<open>the closing tag of the location span\<close>
  \<open>location_close = ''</span>''\<close>

definition page_12 :: string where \<comment> \<open>after the location span, up to reposHTML\<close>
  \<open>page_12 = ''
                          <span class="text-xs uppercase tracking-wider text-[#8b949e] font-semibold mt-1">Location</span>
                      </div>
                  </div>
              </div>
          </div>
        </div>
      </div>

      <div>
          <h3 class="text-2xl font-bold text-[#f0f6fc] mb-6 flex items-center gap-3">
              <svg aria-hidden="true" height="24" viewBox="0 0 16 16" width="24" class="fill-[#58a6ff]"><path d="M2 2.5A2.5 2.5 0 0 1 4.5 0h8.75a.75.75 0 0 1 .75.75v12.5a.75.75 0 0 1-.75.75h-2.5a.75.75 0 0 1 0-1.5h1.75v-2h-8a1 1 0 0 0-.714 1.7.75.75 0 1 1-1.072 1.05A2.495 2.495 0 0 1 2 11.5Zm10.5-1H4.5a1 1 0 0 0-1 0.983L9 2.5Zm1.679 5.5H5.117l3.5 1.342ZM8.75 6.5l-4.75 1.825V2.5A1 1 0 0 1 4.5 1.5h8.25Z"></path></svg>
              Latest Repositories
          </h3>
          
          <div class="grid grid-cols-1 md:grid-cols-2 gap-6 mb-10">
              ''\<close>

definition page_13 :: string where \<comment> \<open>between reposHTML and the second user.html_url\<close>
  \<open>page_13 = ''
          </div>
          
          <div class="flex justify-center pb-10">
              <a href="''\<close>

definition page_14 :: string where \<comment> \<open>page template, after the last substitution\<close>
  \<open>page_14 = ''?tab=repositories" target="_blank" class="bg-[#238636] hover:bg-[#2ea043] text-white font-bold py-3 px-8 rounded-lg transition-colors shadow-lg text-base">
                  View all repositories on GitHub
              </a>
          </div>
      </div>

    </div>
  ''\<close>

section \<open>The view: \<^verbatim>\<open>renderProfile\<close>\<close>

text \<open>
  The state of the page, as far as the script reads or writes it: the content of the
  display target (\<^verbatim>\<open>mainContainer.innerHTML\<close>), the value of the text field, the URLs
  passed to \<^verbatim>\<open>fetch\<close> so far (oldest first) and what \<^verbatim>\<open>console.error\<close> has logged.
\<close>

record page =
  display :: string
  input_value :: string
  requests :: "string list"
  console :: "js_error list"

text \<open>
  The language indicator of a card (line 109):
  \<^verbatim>\<open>repo.language ? `...${repo.language}...` : ""\<close>.
\<close>

definition languageIndicator :: "'n platform \<Rightarrow> 'n jsval \<Rightarrow> js_error + string" where
  "languageIndicator p repo =
     (case getProp repo ''language'' of
        Inl e \<Rightarrow> Inl e
      | Inr l \<Rightarrow>
          if toBoolean p l
          then template [Lit language_open, Sub (propStr p repo ''language''), Lit language_close]
          else Inr [])"

text \<open>
  The callback of \<^verbatim>\<open>repos.map\<close> (lines 92-125): the card of one repository.
  \<open>cardPieces\<close> is the template literal of lines 98-124, \<open>repoCard\<close> the callback.
\<close>

definition cardPieces :: "'n platform \<Rightarrow> 'n jsval \<Rightarrow> string \<Rightarrow> piece list" where
  "cardPieces p repo updatedDate =
     [Lit card_1, Sub (propStr p repo ''html_url''),
      Lit card_2, Sub (propStr p repo ''name''),
      Lit card_3, Sub (propStr p repo ''visibility''),
      Lit card_4, Lit description_open,
      Sub (propOr p repo ''description'' ''No description provided.''),
      Lit paragraph_close, Lit card_5,
      Sub (languageIndicator p repo),
      Lit card_6, Sub (propStr p repo ''stargazers_count''),
      Lit card_7, Sub (propStr p repo ''forks_count''),
      Lit card_8, Sub (Inr updatedDate),
      Lit card_9]"

definition repoCard :: "'n platform \<Rightarrow> 'n jsval \<Rightarrow> js_error + string" where
  "repoCard p repo =
     (case getProp repo ''updated_at'' of
        Inl e \<Rightarrow> Inl e
      | Inr u \<Rightarrow>
          (case formatDate (shortDate p) p u of
             Inl e \<Rightarrow> Inl e
           | Inr updatedDate \<Rightarrow> template (cardPieces p repo updatedDate)))"

text \<open>
  \<^verbatim>\<open>Array.prototype.map\<close> with a callback that may throw: the elements are visited in
  index order and the first exception ends the loop.
\<close>

fun mapThrowing :: "('a \<Rightarrow> js_error + 'b) \<Rightarrow> 'a list \<Rightarrow> js_error + 'b list" where
  "mapThrowing f [] = Inr []"
| "mapThrowing f (x # xs) =
     (case f x of
        Inl e \<Rightarrow> Inl e
      | Inr y \<Rightarrow> (case mapThrowing f xs of Inl e \<Rightarrow> Inl e | Inr ys \<Rightarrow> Inr (y # ys)))"

text \<open>
  \<^verbatim>\<open>repos.map(...).join("")\<close> (lines 91-126). Only an array has a callable \<^verbatim>\<open>map\<close>; on
  every other value the call throws a \<^verbatim>\<open>TypeError\<close>.
\<close>

fun reposHTML :: "'n platform \<Rightarrow> 'n jsval \<Rightarrow> js_error + string" where
  "reposHTML p (JArr rs) = map_sum id concat (mapThrowing (repoCard p) rs)"
| "reposHTML p v = Inl TypeError"

text \<open>The substitution \<^verbatim>\<open>${user.name || user.login}\<close> (line 155).\<close>

definition nameOrLogin :: "'n platform \<Rightarrow> 'n jsval \<Rightarrow> js_error + string" where
  "nameOrLogin p user =
     (case getProp user ''name'' of
        Inl e \<Rightarrow> Inl e
      | Inr n \<Rightarrow> if toBoolean p n then toStr p n else propStr p user ''login'')"

text \<open>The template literal of lines 130-214.\<close>

definition pagePieces :: "'n platform \<Rightarrow> 'n jsval \<Rightarrow> string \<Rightarrow> string \<Rightarrow> piece list" where
  "pagePieces p user joinedDate cards =
     [Lit page_1, Sub (propStr p user ''html_url''),
      Lit page_2, Sub (propStr p user ''avatar_url''),
      Lit page_3, Sub (propStr p user ''login''),
      Lit page_4, Lit name_open,
      Sub (nameOrLogin p user),
      Lit name_close, Lit page_5, Sub (propStr p user ''login''),
      Lit page_6, Sub (Inr joinedDate),
      Lit page_7, Lit bio_open,
      Sub (propOr p user ''bio'' ''This user has no bio.''),
      Lit paragraph_close, Lit page_8, Sub (propStr p user ''public_repos''),
      Lit page_9, Sub (propStr p user ''followers''),
      Lit page_10, Sub (propStr p user ''following''),
      Lit page_11, Lit location_open,
      Sub (propOr p user ''location'' ''Earth''),
      Lit location_close, Lit page_12, Sub (Inr cards),
      Lit page_13, Sub (propStr p user ''html_url''),
      Lit page_14]"

text \<open>
  The text that \<^verbatim>\<open>renderProfile\<close> assigns to the display target (lines 84-214), or the
  exception thrown before the assignment: the joined date first, then the cards, then the
  page template.
\<close>

definition profileHTML :: "'n platform \<Rightarrow> 'n jsval \<Rightarrow> 'n jsval \<Rightarrow> js_error + string" where
  "profileHTML p user repos =
     (case getProp user ''created_at'' of
        Inl e \<Rightarrow> Inl e
      | Inr c \<Rightarrow>
          (case formatDate (longDate p) p c of
             Inl e \<Rightarrow> Inl e
           | Inr joinedDate \<Rightarrow>
               (case reposHTML p repos of
                  Inl e \<Rightarrow> Inl e
                | Inr cards \<Rightarrow> template (pagePieces p user joinedDate cards))))"

text \<open>
  \<^verbatim>\<open>renderProfile(user, repos)\<close>: it returns nothing; its effect is the one assignment to
  \<^verbatim>\<open>mainContainer.innerHTML\<close> at its end.
\<close>

definition renderProfile :: "'n platform \<Rightarrow> 'n jsval \<Rightarrow> 'n jsval \<Rightarrow> page \<Rightarrow> (js_error + unit) \<times> page" where
  "renderProfile p user repos s =
     (case profileHTML p user repos of
        Inl e \<Rightarrow> (Inl e, s)
      | Inr html \<Rightarrow> (Inr (), s\<lparr>display := html\<rparr>))"

section \<open>The controller: \<^verbatim>\<open>getUserProfile\<close> and the submit listener\<close>

text \<open>
  The network is the script's environment. \<^verbatim>\<open>fetch(url)\<close> either rejects (with a
  \<^verbatim>\<open>TypeError\<close>: the service cannot be reached) or resolves with a response, of which the
  script reads \<^verbatim>\<open>ok\<close> (a status from 200 to 299) and \<^verbatim>\<open>json()\<close>, which rejects with a
  \<^verbatim>\<open>SyntaxError\<close> when the body is not JSON text (\<open>None\<close>).
\<close>

record 'n response =
  status :: nat
  body :: "'n jsval option"

datatype 'n fetched = Rejects | Resolves "'n response"

type_synonym 'n network = "string \<Rightarrow> 'n fetched"

definition ok :: "'n response \<Rightarrow> bool" where
  "ok r = (200 \<le> status r \<and> status r \<le> 299)"

definition json :: "'n response \<Rightarrow> js_error + 'n jsval" where
  "json r = (case body r of None \<Rightarrow> Inl SyntaxError | Some v \<Rightarrow> Inr v)"

definition fetch :: "'n network \<Rightarrow> string \<Rightarrow> page \<Rightarrow> (js_error + 'n response) \<times> page" where
  "fetch net url s =
     (case net url of
        Rejects \<Rightarrow> (Inl TypeError, s\<lparr>requests := requests s @ [url]\<rparr>)
      | Resolves r \<Rightarrow> (Inr r, s\<lparr>requests := requests s @ [url]\<rparr>))"

definition userUrl :: "string \<Rightarrow> string" where
  "userUrl username = ''https://api.github.com/users/'' @ username"

definition reposUrl :: "string \<Rightarrow> string" where
  "reposUrl username =
     ''https://api.github.com/users/'' @ username @ ''/repos?sort=updated&per_page=6''"

text \<open>
  Lines 41-53 of \<^verbatim>\<open>getUserProfile\<close>: the two requests, one after the other. The result is
  the pair \<^verbatim>\<open>(userData, reposData)\<close>, or the exception that ended the block.
\<close>

definition getUserProfile_fetch ::
  "'n network \<Rightarrow> string \<Rightarrow> page \<Rightarrow> (js_error + 'n jsval \<times> 'n jsval) \<times> page" where
  "getUserProfile_fetch net username s =
     (case fetch net (userUrl username) s of
        (Inl e, s1) \<Rightarrow> (Inl e, s1)
      | (Inr userResponse, s1) \<Rightarrow>
          if \<not> ok userResponse then (Inl (Error ''User not found''), s1)
          else
            (case json userResponse of
               Inl e \<Rightarrow> (Inl e, s1)
             | Inr userData \<Rightarrow>
                 (case fetch net (reposUrl username) s1 of
                    (Inl e, s2) \<Rightarrow> (Inl e, s2)
                  | (Inr reposResponse, s2) \<Rightarrow>
                      (case json reposResponse of
                         Inl e \<Rightarrow> (Inl e, s2)
                       | Inr reposData \<Rightarrow> (Inr (userData, reposData), s2)))))"

text \<open>The \<^verbatim>\<open>try\<close> block (lines 39-56): the requests, then \<^verbatim>\<open>renderProfile\<close>.\<close>

definition getUserProfile_try ::
  "'n platform \<Rightarrow> 'n network \<Rightarrow> string \<Rightarrow> page \<Rightarrow> (js_error + unit) \<times> page" where
  "getUserProfile_try p net username s =
     (case getUserProfile_fetch net username s of
        (Inl e, s') \<Rightarrow> (Inl e, s')
      | (Inr (userData, reposData), s') \<Rightarrow> renderProfile p userData reposData s')"

text \<open>
  \<^verbatim>\<open>getUserProfile(username)\<close> (lines 38-73): the \<^verbatim>\<open>try\<close> block and its \<^verbatim>\<open>catch\<close>, which
  logs the exception and shows the error panel. The function is asynchronous; the model
  is one query run to its end, with no other query in between.
\<close>

definition getUserProfile :: "'n platform \<Rightarrow> 'n network \<Rightarrow> string \<Rightarrow> page \<Rightarrow> page" where
  "getUserProfile p net username s =
     (case getUserProfile_try p net username s of
        (Inl e, s') \<Rightarrow> s'\<lparr>console := console s' @ [e], display := errorPanel\<rparr>
      | (Inr u, s') \<Rightarrow> s')"

text \<open>
  \<^verbatim>\<open>String.prototype.trim\<close> removes white space and line terminators from both ends.
  Among the code units below 256 these are TAB, LF, VT, FF, CR, SPACE and NBSP.
\<close>

definition isWhiteSpace :: "char \<Rightarrow> bool" where
  "isWhiteSpace c = (of_char c \<in> {9, 10, 11, 12, 13, 32, 160 :: nat})"

definition trim :: "string \<Rightarrow> string" where
  "trim s = rev (dropWhile isWhiteSpace (rev (dropWhile isWhiteSpace s)))"

text \<open>
  The submit listener (lines 23-30). \<^verbatim>\<open>event.preventDefault()\<close> keeps the browser from
  leaving the page and has no effect on the state modelled here.
\<close>

definition onSubmit :: "'n platform \<Rightarrow> 'n network \<Rightarrow> page \<Rightarrow> page" where
  "onSubmit p net s =
     (let username = trim (input_value s)
      in if username \<noteq> [] then getUserProfile p net username s else s)"


section \<open>The view on a store of objects\<close>

text \<open>
  The definitions above pass \<^verbatim>\<open>user\<close> and \<^verbatim>\<open>repos\<close> to the view as values. In the browser
  they are objects that \<^verbatim>\<open>response.json()\<close> created and that \<^verbatim>\<open>renderProfile\<close> receives by
  reference: a function that is handed them could write to them. To state what the view
  does to its arguments, this section runs the same lines of \<^verbatim>\<open>renderProfile\<close> on a store.

  A cell of the store holds what one \<^verbatim>\<open>json()\<close> call resolved with, or an array that the
  script created: a JSON value with everything below it. The address of a cell is its
  index. The view holds three references: \<^verbatim>\<open>user\<close> and \<^verbatim>\<open>repos\<close>, which are addresses, and
  inside the callback of \<^verbatim>\<open>map\<close> the parameter \<^verbatim>\<open>repo\<close>, which is an element of the array at
  the address \<^verbatim>\<open>repos\<close>. Every read goes to the store as it is at that point of the run.
\<close>

type_synonym 'n store = "'n jsval list"

definition cell :: "'n store \<Rightarrow> nat \<Rightarrow> 'n jsval" where
  "cell st a = (if a < length st then st ! a else JUndefined)"

text \<open>\<^verbatim>\<open>repos[i]\<close>, as \<^verbatim>\<open>map\<close> reads it when it calls the callback for index \<open>i\<close>.\<close>

definition element :: "'n store \<Rightarrow> nat \<Rightarrow> nat \<Rightarrow> 'n jsval" where
  "element st a i =
     (case cell st a of
        JArr xs \<Rightarrow> if i < length xs then xs ! i else JUndefined
      | _ \<Rightarrow> JUndefined)"

text \<open>A new object gets the next free address; no cell that exists is touched.\<close>

definition alloc :: "'n jsval \<Rightarrow> 'n store \<Rightarrow> nat \<times> 'n store" where
  "alloc v st = (length st, st @ [v])"

text \<open>
  \<^verbatim>\<open>Array.prototype.join("")\<close>: the elements' \<^verbatim>\<open>ToString\<close>, one after the other, \<^verbatim>\<open>null\<close> and
  \<^verbatim>\<open>undefined\<close> elements giving the empty string.
\<close>

definition joinEmpty :: "'n platform \<Rightarrow> 'n jsval \<Rightarrow> js_error + string" where
  "joinEmpty p v =
     (case v of
        JArr xs \<Rightarrow>
          map_sum id concat
            (mapThrowing (\<lambda>x. if x = JUndefined \<or> x = JNull then Inr [] else toStr p x) xs)
      | _ \<Rightarrow> Inl TypeError)"

text \<open>
  The callback of \<^verbatim>\<open>repos.map\<close> for index \<open>i\<close> (lines 92-125): every \<^verbatim>\<open>repo.k\<close> of the card
  reads the element as the store holds it.
\<close>

definition repoCardS :: "'n platform \<Rightarrow> 'n store \<Rightarrow> nat \<Rightarrow> nat \<Rightarrow> js_error + string" where
  "repoCardS p st a i = repoCard p (element st a i)"

text \<open>
  \<^verbatim>\<open>repos.map(...).join("")\<close> (lines 91-126). \<^verbatim>\<open>map\<close> reads the length of the array once,
  calls the callback for the indices below it in order, and returns a new array of the
  results, which \<^verbatim>\<open>join\<close> then reads. When the callback throws, no array has been
  returned.
\<close>

definition reposHTMLS ::
  "'n platform \<Rightarrow> nat \<Rightarrow> 'n store \<Rightarrow> (js_error + string) \<times> 'n store" where
  "reposHTMLS p a st =
     (case cell st a of
        JArr rs \<Rightarrow>
          (case mapThrowing (repoCardS p st a) [0..<length rs] of
             Inl e \<Rightarrow> (Inl e, st)
           | Inr cards \<Rightarrow>
               (case alloc (JArr (map JStr cards)) st of
                  (mapped, st1) \<Rightarrow> (joinEmpty p (cell st1 mapped), st1)))
      | _ \<Rightarrow> (Inl TypeError, st))"

text \<open>
  \<^verbatim>\<open>renderProfile(user, repos)\<close> on the store (lines 82-215): the joined date is read from
  \<^verbatim>\<open>user\<close>, then the cards are made, then the page template reads \<^verbatim>\<open>user\<close> again, and
  the text is assigned to the display target.
\<close>

definition renderProfileS ::
  "'n platform \<Rightarrow> nat \<Rightarrow> nat \<Rightarrow> 'n store \<times> page \<Rightarrow> (js_error + unit) \<times> ('n store \<times> page)" where
  "renderProfileS p user repos state =
     (case state of
        (st, s) \<Rightarrow>
          (case getProp (cell st user) ''created_at'' of
             Inl e \<Rightarrow> (Inl e, (st, s))
           | Inr c \<Rightarrow>
               (case formatDate (longDate p) p c of
                  Inl e \<Rightarrow> (Inl e, (st, s))
                | Inr joinedDate \<Rightarrow>
                    (case reposHTMLS p repos st of
                       (Inl e, st1) \<Rightarrow> (Inl e, (st1, s))
                     | (Inr cards, st1) \<Rightarrow>
                         (case template (pagePieces p (cell st1 user) joinedDate cards) of
                            Inl e \<Rightarrow> (Inl e, (st1, s))
                          | Inr html \<Rightarrow> (Inr (), (st1, s\<lparr>display := html\<rparr>)))))))"

section \<open>Vocabulary for the statements\<close>

text \<open>
  An optional field is absent when the JSON object has no such member (reading it gives
  \<^verbatim>\<open>undefined\<close>) or when the member is \<^verbatim>\<open>null\<close>, which is how the GitHub API sends an
  unset field.
\<close>

definition absent :: "'n jsval \<Rightarrow> bool" where
  "absent v = (v = JUndefined \<or> v = JNull)"

text \<open>The requests issued between an earlier state of the page and a later one.\<close>

definition issued :: "page \<Rightarrow> page \<Rightarrow> string list" where
  "issued s s' = drop (length (requests s)) (requests s')"


text \<open>The text of a card whose eight substitutions give these eight texts (lines 98-124).\<close>

definition cardText ::
  "string \<Rightarrow> string \<Rightarrow> string \<Rightarrow> string \<Rightarrow> string \<Rightarrow> string \<Rightarrow> string \<Rightarrow> string \<Rightarrow> string" where
  "cardText url name visibility description language stars forks updated =
     card_1 @ url @ card_2 @ name @ card_3 @ visibility @ card_4
       @ description_open @ description @ paragraph_close @ card_5 @ language
       @ card_6 @ stars @ card_7 @ forks @ card_8 @ updated @ card_9"


section \<open>An example platform and example data\<close>

text \<open>
  The theorems below hold for every platform. To run them on concrete inputs, here is one
  platform: numbers are natural numbers printed in decimal, zero is the false one, and the
  date functions know the two time stamps of the example data (anything else they call an
  invalid date, as the browser does for text that is not a date).
\<close>

fun decimal :: "nat \<Rightarrow> string" where
  "decimal n =
     (if n < 10 then [''0123456789'' ! n]
      else decimal (n div 10) @ [''0123456789'' ! (n mod 10)])"

declare decimal.simps [simp del]

definition examplePlatform :: "nat platform" where
  "examplePlatform =
     \<lparr>numberToString = decimal,
      numberTruthy = (\<lambda>n. n \<noteq> 0),
      longDate = (\<lambda>v. if v = JStr ''2011-01-25T18:44:36Z'' then ''January 25, 2011''
                        else ''Invalid Date''),
      shortDate = (\<lambda>v. if v = JStr ''2024-03-05T10:00:00Z'' then ''Mar 5, 2024''
                         else ''Invalid Date'')\<rparr>"

text \<open>
  A profile object and a repository object. The optional members (\<^verbatim>\<open>name\<close>, \<^verbatim>\<open>bio\<close>,
  \<^verbatim>\<open>location\<close>; \<^verbatim>\<open>description\<close>, \<^verbatim>\<open>language\<close>) are passed in, so that each example can
  leave them out or choose their values.
\<close>

definition exampleUser :: "(string \<times> nat jsval) list \<Rightarrow> nat jsval" where
  "exampleUser optional =
     JObj (optional @
       [(''login'', JStr ''octocat''),
        (''avatar_url'', JStr ''https://avatars.githubusercontent.com/u/583231?v=4''),
        (''created_at'', JStr ''2011-01-25T18:44:36Z''),
        (''public_repos'', JNum 8),
        (''followers'', JNum 100),
        (''following'', JNum 9),
        (''html_url'', JStr ''https://github.com/octocat'')])"

definition exampleRepo :: "string \<Rightarrow> (string \<times> nat jsval) list \<Rightarrow> nat jsval" where
  "exampleRepo name optional =
     JObj (optional @
       [(''name'', JStr name),
        (''html_url'', JStr (''https://github.com/octocat/'' @ name)),
        (''visibility'', JStr ''public''),
        (''stargazers_count'', JNum 12),
        (''forks_count'', JNum 0),
        (''updated_at'', JStr ''2024-03-05T10:00:00Z'')])"


text \<open>The card the view makes of \<open>exampleRepo name []\<close> on the example platform.\<close>

definition exampleCard :: "string \<Rightarrow> string" where
  "exampleCard name =
     cardText (''https://github.com/octocat/'' @ name) name ''public''
       ''No description provided.'' [] ''12'' ''0'' ''Mar 5, 2024''"


text \<open>An answer of the service with seven repositories.\<close>

definition sevenRepos :: "nat jsval list" where
  "sevenRepos =
     [exampleRepo ''r1'' [], exampleRepo ''r2'' [], exampleRepo ''r3'' [],
      exampleRepo ''r4'' [], exampleRepo ''r5'' [], exampleRepo ''r6'' [],
      exampleRepo ''r7'' []]"


text \<open>
  Example states of the page and example networks. \<open>serving\<close> answers the two URLs of one
  user name and cannot be reached under any other URL.
\<close>

definition freshPage :: "string \<Rightarrow> page" where
  "freshPage query = \<lparr>display = [], input_value = query, requests = [], console = []\<rparr>"

definition serving :: "string \<Rightarrow> 'n fetched \<Rightarrow> 'n fetched \<Rightarrow> 'n network" where
  "serving username profile repos =
     (\<lambda>url. if url = userUrl username then profile
            else if url = reposUrl username then repos
            else Rejects)"

definition answer :: "nat \<Rightarrow> 'n jsval \<Rightarrow> 'n fetched" where
  "answer code v = Resolves \<lparr>status = code, body = Some v\<rparr>"



section \<open>The second script of the repository\<close>

text \<open>
  The repository holds a second, shorter script, listed without a file name. It is an
  earlier state of the same controller: its submit listener passes
  the value of the text field, as it is, to a \<^verbatim>\<open>getUserProfile\<close> that requests the profile
  and logs the answer with \<^verbatim>\<open>console.log\<close>. It has no \<^verbatim>\<open>trim\<close>, no test for an empty query,
  no second request, no rendering and no \<^verbatim>\<open>catch\<close>: an exception ends it as a rejected
  promise. Everything else in this theory is about \<^verbatim>\<open>src/main.js\<close>, the script the
  specification describes.
\<close>

definition draft_onSubmit :: "'n network \<Rightarrow> page \<Rightarrow> (js_error + unit) \<times> page" where
  "draft_onSubmit net s =
     (case fetch net (userUrl (input_value s)) s of
        (Inl e, s') \<Rightarrow> (Inl e, s')
      | (Inr response, s') \<Rightarrow>
          (case json response of Inl e \<Rightarrow> (Inl e, s') | Inr data \<Rightarrow> (Inr (), s')))"

section \<open>Facts about templates\<close>

lemma template_append_eq:
  "template (xs @ ys) =
     (case template xs of Inl e \<Rightarrow> Inl e | Inr a \<Rightarrow> map_sum id (\<lambda>r. a @ r) (template ys))"
proof (induction xs rule: template.induct)
  case 1
  show ?case by (cases "template ys") simp_all
next
  case (2 s ps)
  then show ?case by (cases "template ps"; cases "template ys") simp_all
next
  case (3 e ps)
  show ?case by simp
next
  case (4 s ps)
  then show ?case by (cases "template ps"; cases "template ys") simp_all
qed

lemma template_append:
  "template (xs @ ys) = Inr h \<longleftrightarrow>
     (\<exists>a b. template xs = Inr a \<and> template ys = Inr b \<and> h = a @ b)"
  by (cases "template xs"; cases "template ys") (auto simp: template_append_eq)

lemma template_split:
  assumes "template (pre @ mid @ post) = Inr h"
  shows "\<exists>a m b. template pre = Inr a \<and> template mid = Inr m \<and> template post = Inr b
           \<and> h = a @ m @ b"
proof -
  from assms obtain a r where "template pre = Inr a" "template (mid @ post) = Inr r" "h = a @ r"
    unfolding template_append by blast
  moreover then obtain m b where "template mid = Inr m" "template post = Inr b" "r = m @ b"
    unfolding template_append by blast
  ultimately show ?thesis by auto
qed

lemma template_at:
  assumes t: "template ps = Inr h" and n: "n < length ps"
  shows "\<exists>a m b. template (take n ps) = Inr a \<and> template [ps ! n] = Inr m
           \<and> template (drop (Suc n) ps) = Inr b \<and> h = a @ m @ b"
proof -
  from n have "ps = take n ps @ [ps ! n] @ drop (Suc n) ps"
    by (simp add: id_take_nth_drop)
  with t have "template (take n ps @ [ps ! n] @ drop (Suc n) ps) = Inr h" by simp
  then show ?thesis by (rule template_split)
qed

text \<open>An element of the output: the text of a substitution between two literal chunks.\<close>

lemma template_element:
  assumes t: "template ps = Inr h"
    and n: "n + 2 < length ps"
    and ps: "ps ! n = Lit a" "ps ! (n + 1) = Sub r" "ps ! (n + 2) = Lit b"
  shows "\<exists>x. r = Inr x \<and> sublist (a @ x @ b) h"
proof -
  from n have "drop n ps = ps ! n # drop (Suc n) ps"
    and "drop (Suc n) ps = ps ! (n + 1) # drop (Suc (Suc n)) ps"
    and "drop (Suc (Suc n)) ps = ps ! (n + 2) # drop (n + 3) ps"
    by (simp_all add: Cons_nth_drop_Suc numeral_3_eq_3)
  then have "take n ps @ drop n ps
      = take n ps @ [ps ! n, ps ! (n + 1), ps ! (n + 2)] @ drop (n + 3) ps"
    by simp
  then have "ps = take n ps @ [ps ! n, ps ! (n + 1), ps ! (n + 2)] @ drop (n + 3) ps"
    by simp
  with t ps have "template (take n ps @ [Lit a, Sub r, Lit b] @ drop (n + 3) ps) = Inr h"
    by simp
  from template_split [OF this] obtain u m v
    where m: "template [Lit a, Sub r, Lit b] = Inr m" and h: "h = u @ m @ v" by blast
  from m obtain x where x: "r = Inr x" "m = a @ x @ b" by (cases r) auto
  with h have "sublist (a @ x @ b) h" by (simp only: sublist_appendI)
  with x show ?thesis by blast
qed

lemma template_substitution:
  assumes t: "template ps = Inr h" and n: "n < length ps" and ps: "ps ! n = Sub r"
  shows "\<exists>x. r = Inr x \<and> sublist x h"
proof -
  from template_at [OF t n] ps obtain u m v
    where m: "template [Sub r] = Inr m" and h: "h = u @ m @ v" by auto
  from m obtain x where x: "r = Inr x" "m = x" by (cases r) auto
  with h have "sublist x h" by (simp only: sublist_appendI)
  with x show ?thesis by blast
qed

lemma mapThrowing_Inr:
  "mapThrowing f xs = Inr ys \<longleftrightarrow> list_all2 (\<lambda>x y. f x = Inr y) xs ys"
proof (induction xs arbitrary: ys)
  case Nil
  show ?case by auto
next
  case (Cons x xs)
  show ?case
  proof (cases "f x")
    case (Inl e)
    then show ?thesis by (simp add: list_all2_Cons1)
  next
    case fx: (Inr y)
    show ?thesis
    proof (cases "mapThrowing f xs")
      case (Inl e)
      with Cons.IH have "\<And>zs. \<not> list_all2 (\<lambda>x y. f x = Inr y) xs zs" by simp
      with fx Inl show ?thesis by (simp add: list_all2_Cons1)
    next
      case (Inr zs)
      have "list_all2 (\<lambda>x y. f x = Inr y) xs ws \<longleftrightarrow> zs = ws" for ws
        using Cons.IH [of ws] by (simp only: Inr sum.inject)
      with fx Inr show ?thesis by (cases ys) auto
    qed
  qed
qed

lemma sublist_concat: "x \<in> set xs \<Longrightarrow> sublist x (concat xs)"
proof (induction xs)
  case Nil
  then show ?case by simp
next
  case (Cons a xs)
  show ?case
  proof (cases "x = a")
    case True
    then show ?thesis by simp
  next
    case False
    with Cons have "sublist x (concat xs)" by simp
    then obtain u v where "concat xs = u @ x @ v" unfolding sublist_def by blast
    then have "concat (a # xs) = (a @ u) @ x @ v" by simp
    then show ?thesis unfolding sublist_def by blast
  qed
qed

section \<open>Facts about the view\<close>

lemma propOr_falsy:
  "getProp v k = Inr x \<Longrightarrow> \<not> toBoolean p x \<Longrightarrow> propOr p v k fb = Inr fb"
  by (simp add: propOr_def orElse_def)

lemma propOr_truthy:
  "getProp v k = Inr x \<Longrightarrow> toBoolean p x \<Longrightarrow> propOr p v k fb = toStr p x"
  by (simp add: propOr_def orElse_def)

lemma nameOrLogin_falsy:
  "getProp user ''name'' = Inr x \<Longrightarrow> \<not> toBoolean p x \<Longrightarrow>
   nameOrLogin p user = propStr p user ''login''"
  by (simp add: nameOrLogin_def)

lemma nameOrLogin_truthy:
  "getProp user ''name'' = Inr x \<Longrightarrow> toBoolean p x \<Longrightarrow> nameOrLogin p user = toStr p x"
  by (simp add: nameOrLogin_def)

lemma propStr_value: "getProp v k = Inr x \<Longrightarrow> propStr p v k = toStr p x"
  by (simp add: propStr_def)

lemma profileHTML_Inr:
  assumes "profileHTML p user repos = Inr html"
  shows "\<exists>c joinedDate cards.
           getProp user ''created_at'' = Inr c \<and> formatDate (longDate p) p c = Inr joinedDate
           \<and> reposHTML p repos = Inr cards
           \<and> template (pagePieces p user joinedDate cards) = Inr html"
  using assms by (auto simp: profileHTML_def split: sum.splits)

lemma repoCard_Inr:
  assumes "repoCard p repo = Inr ch"
  shows "\<exists>u updatedDate.
           getProp repo ''updated_at'' = Inr u \<and> formatDate (shortDate p) p u = Inr updatedDate
           \<and> template (cardPieces p repo updatedDate) = Inr ch"
  using assms by (auto simp: repoCard_def split: sum.splits)

lemma reposHTML_Inr:
  "reposHTML p repos = Inr h \<longleftrightarrow>
     (\<exists>rs cards. repos = JArr rs \<and> list_all2 (\<lambda>r c. repoCard p r = Inr c) rs cards
        \<and> h = concat cards)"
proof (cases repos)
  case (JArr rs)
  show ?thesis
    by (cases "mapThrowing (repoCard p) rs")
      (auto simp: JArr mapThrowing_Inr [symmetric])
qed simp_all

text \<open>The elements of the page that enclose a substitution with a fallback.\<close>

lemma bio_element:
  assumes "profileHTML p user repos = Inr html"
  shows "\<exists>x. propOr p user ''bio'' ''This user has no bio.'' = Inr x
           \<and> sublist (bio_open @ x @ paragraph_close) html"
proof -
  from profileHTML_Inr [OF assms] obtain j c
    where t: "template (pagePieces p user j c) = Inr html" by blast
  show ?thesis
    by (rule template_element [OF t, of 15]) (simp_all add: pagePieces_def)
qed

lemma location_element:
  assumes "profileHTML p user repos = Inr html"
  shows "\<exists>x. propOr p user ''location'' ''Earth'' = Inr x
           \<and> sublist (location_open @ x @ location_close) html"
proof -
  from profileHTML_Inr [OF assms] obtain j c
    where t: "template (pagePieces p user j c) = Inr html" by blast
  show ?thesis
    by (rule template_element [OF t, of 25]) (simp_all add: pagePieces_def)
qed

lemma name_element:
  assumes "profileHTML p user repos = Inr html"
  shows "\<exists>x. nameOrLogin p user = Inr x \<and> sublist (name_open @ x @ name_close) html"
proof -
  from profileHTML_Inr [OF assms] obtain j c
    where t: "template (pagePieces p user j c) = Inr html" by blast
  show ?thesis
    by (rule template_element [OF t, of 7]) (simp_all add: pagePieces_def)
qed

lemma description_element:
  assumes "repoCard p repo = Inr ch"
  shows "\<exists>x. propOr p repo ''description'' ''No description provided.'' = Inr x
           \<and> sublist (description_open @ x @ paragraph_close) ch"
proof -
  from repoCard_Inr [OF assms] obtain d
    where t: "template (cardPieces p repo d) = Inr ch" by blast
  show ?thesis
    by (rule template_element [OF t, of 7]) (simp_all add: cardPieces_def)
qed

lemma language_slot:
  assumes "repoCard p repo = Inr ch"
  shows "\<exists>x. languageIndicator p repo = Inr x \<and> sublist x ch"
proof -
  from repoCard_Inr [OF assms] obtain d
    where t: "template (cardPieces p repo d) = Inr ch" by blast
  show ?thesis
    by (rule template_substitution [OF t, of 11]) (simp_all add: cardPieces_def)
qed

text \<open>The whole text of a card.\<close>

lemma template_Sub:
  "template (Sub r # ps) =
     (case r of Inl e \<Rightarrow> Inl e | Inr s \<Rightarrow> map_sum id (\<lambda>t. s @ t) (template ps))"
  by (cases r) simp_all

lemma map_sum_Inr_iff: "map_sum id f x = Inr y \<longleftrightarrow> (\<exists>z. x = Inr z \<and> y = f z)"
  by (cases x) auto

lemma repoCard_text:
  assumes "repoCard p r = Inr c"
  shows "\<exists>url name visibility description language stars forks u updated.
           propStr p r ''html_url'' = Inr url \<and> propStr p r ''name'' = Inr name
           \<and> propStr p r ''visibility'' = Inr visibility
           \<and> propOr p r ''description'' ''No description provided.'' = Inr description
           \<and> languageIndicator p r = Inr language
           \<and> propStr p r ''stargazers_count'' = Inr stars
           \<and> propStr p r ''forks_count'' = Inr forks
           \<and> getProp r ''updated_at'' = Inr u \<and> formatDate (shortDate p) p u = Inr updated
           \<and> c = cardText url name visibility description language stars forks updated"
proof -
  from repoCard_Inr [OF assms] obtain u d
    where u: "getProp r ''updated_at'' = Inr u" "formatDate (shortDate p) p u = Inr d"
      and t: "template (cardPieces p r d) = Inr c" by blast
  from t show ?thesis
    unfolding cardPieces_def
    by (simp add: template_Sub map_sum_Inr_iff cardText_def u split: sum.splits)
qed

lemma cardText_not_empty: "cardText a b c d e f g h \<noteq> []"
  by (simp add: cardText_def card_1_def)


lemma cards_are_projr:
  assumes "list_all2 (\<lambda>r c. repoCard p r = Inr c) rs cards"
  shows "cards = map (\<lambda>r. projr (repoCard p r)) rs"
  using assms by (induction rule: list_all2_induct) simp_all

text \<open>The language slot of a card.\<close>

lemma card_without_language:
  assumes c: "repoCard p (JObj kvs) = Inr c"
    and l: "\<not> toBoolean p (field kvs ''language'')"
    and lang: "lang \<noteq> []"
  shows "languageIndicator p (JObj kvs) = Inr []
     \<and> (\<exists>pre post. c = pre @ card_5 @ card_6 @ post
          \<and> repoCard p (JObj ((''language'', JStr lang) # kvs))
              = Inr (pre @ card_5 @ language_open @ lang @ language_close @ card_6 @ post))"
proof -
  let ?r = "JObj kvs"
  let ?r' = "JObj ((''language'', JStr lang) # kvs)"
  from repoCard_Inr [OF c] obtain u d
    where u: "getProp ?r ''updated_at'' = Inr u" "formatDate (shortDate p) p u = Inr d"
      and t: "template (cardPieces p ?r d) = Inr c" by blast
  have li: "languageIndicator p ?r = Inr []"
    using l by (simp add: languageIndicator_def)
  have li': "languageIndicator p ?r' = Inr (language_open @ lang @ language_close)"
    using lang by (simp add: languageIndicator_def propStr_def field_def)
  define A where "A = take 10 (cardPieces p ?r d)"
  define B where "B = drop 13 (cardPieces p ?r d)"
  have ps: "cardPieces p ?r d = A @ [Lit card_5, Sub (Inr []), Lit card_6] @ B"
    by (simp add: A_def B_def cardPieces_def li)
  have ps': "cardPieces p ?r' d
      = A @ [Lit card_5, Sub (Inr (language_open @ lang @ language_close)), Lit card_6] @ B"
    by (simp add: A_def B_def cardPieces_def li' propStr_def propOr_def field_def)
  from t ps have "template (A @ [Lit card_5, Sub (Inr []), Lit card_6] @ B) = Inr c" by simp
  from template_split [OF this] obtain a b
    where ab: "template A = Inr a" "template B = Inr b" and c': "c = a @ card_5 @ card_6 @ b"
    by auto
  from ab have "template (cardPieces p ?r' d)
      = Inr (a @ card_5 @ language_open @ lang @ language_close @ card_6 @ b)"
    by (simp add: ps' template_append_eq)
  moreover from u have "repoCard p ?r' = template (cardPieces p ?r' d)"
    by (simp add: repoCard_def field_def)
  ultimately have "repoCard p ?r'
      = Inr (a @ card_5 @ language_open @ lang @ language_close @ card_6 @ b)" by simp
  with li c' show ?thesis by blast
qed

lemma card_with_language:
  assumes c: "repoCard p repo = Inr c"
    and l: "getProp repo ''language'' = Inr (JStr lang)" "lang \<noteq> []"
  shows "sublist (language_open @ lang @ language_close) c"
proof -
  from l have "languageIndicator p repo = Inr (language_open @ lang @ language_close)"
    by (simp add: languageIndicator_def propStr_def)
  with language_slot [OF c] show ?thesis by auto
qed


text \<open>Every card is part of the page, and the cards stand between two fixed chunks.\<close>

lemma cards_in_page:
  assumes "profileHTML p user repos = Inr html"
  shows "\<exists>rs cards pre post. repos = JArr rs
           \<and> list_all2 (\<lambda>r c. repoCard p r = Inr c) rs cards
           \<and> html = pre @ page_12 @ concat cards @ page_13 @ post"
proof -
  from profileHTML_Inr [OF assms] obtain j h
    where r: "reposHTML p repos = Inr h"
      and t: "template (pagePieces p user j h) = Inr html" by blast
  from r obtain rs cards
    where rs: "repos = JArr rs" "list_all2 (\<lambda>r c. repoCard p r = Inr c) rs cards"
      and h: "h = concat cards"
    unfolding reposHTML_Inr by blast
  have "pagePieces p user j h =
          take 28 (pagePieces p user j h) @ [Lit page_12, Sub (Inr h), Lit page_13]
            @ drop 31 (pagePieces p user j h)"
    by (simp add: pagePieces_def)
  with t have "template (take 28 (pagePieces p user j h) @ [Lit page_12, Sub (Inr h), Lit page_13]
            @ drop 31 (pagePieces p user j h)) = Inr html" by simp
  from template_split [OF this] obtain u v where "html = u @ (page_12 @ h @ page_13) @ v"
    by auto
  with h have "html = u @ page_12 @ concat cards @ page_13 @ v" by simp
  with rs show ?thesis by blast
qed

lemma card_in_page:
  assumes html: "profileHTML p user (JArr rs) = Inr html" and r: "r \<in> set rs"
  shows "\<exists>ch. repoCard p r = Inr ch \<and> sublist ch html"
proof -
  from cards_in_page [OF html] obtain cards pre post
    where cs: "list_all2 (\<lambda>r c. repoCard p r = Inr c) rs cards"
      and h: "html = pre @ page_12 @ concat cards @ page_13 @ post" by auto
  from r obtain i where i: "i < length rs" "rs ! i = r" by (auto simp: in_set_conv_nth)
  with cs have c: "repoCard p r = Inr (cards ! i)" "cards ! i \<in> set cards"
    by (auto simp: list_all2_conv_all_nth)
  then have "sublist (cards ! i) (concat cards)" by (simp add: sublist_concat)
  then obtain u v where "concat cards = u @ cards ! i @ v" unfolding sublist_def by blast
  with h have "html = (pre @ page_12 @ u) @ cards ! i @ (v @ page_13 @ post)" by simp
  then have "sublist (cards ! i) html" unfolding sublist_def by blast
  with c show ?thesis by blast
qed


lemma absent_falsy: "absent v \<Longrightarrow> \<not> toBoolean p v"
  by (auto simp: absent_def)

text \<open>The facts that evaluate the view on the example data.\<close>

lemmas example_simps =
  examplePlatform_def exampleUser_def exampleRepo_def decimal.simps
  profileHTML_def pagePieces_def repoCard_def cardPieces_def languageIndicator_def
  nameOrLogin_def propStr_def propOr_def orElse_def field_def formatDate_def


section \<open>Facts about the controller\<close>

lemma userUrl_neq_reposUrl: "userUrl u \<noteq> reposUrl u"
proof
  assume "userUrl u = reposUrl u"
  then have "length (userUrl u) = length (reposUrl u)" by simp
  then show False by (simp add: userUrl_def reposUrl_def)
qed

text \<open>The six ways through the two requests.\<close>

lemma getUserProfile_fetch_eq:
  "getUserProfile_fetch net u s =
     (case net (userUrl u) of
        Rejects \<Rightarrow> (Inl TypeError, s\<lparr>requests := requests s @ [userUrl u]\<rparr>)
      | Resolves r \<Rightarrow>
          if \<not> ok r
          then (Inl (Error ''User not found''), s\<lparr>requests := requests s @ [userUrl u]\<rparr>)
          else
            (case body r of
               None \<Rightarrow> (Inl SyntaxError, s\<lparr>requests := requests s @ [userUrl u]\<rparr>)
             | Some userData \<Rightarrow>
                 (case net (reposUrl u) of
                    Rejects \<Rightarrow>
                      (Inl TypeError, s\<lparr>requests := requests s @ [userUrl u, reposUrl u]\<rparr>)
                  | Resolves r' \<Rightarrow>
                      (case body r' of
                         None \<Rightarrow>
                           (Inl SyntaxError,
                            s\<lparr>requests := requests s @ [userUrl u, reposUrl u]\<rparr>)
                       | Some reposData \<Rightarrow>
                           (Inr (userData, reposData),
                            s\<lparr>requests := requests s @ [userUrl u, reposUrl u]\<rparr>)))))"
  by (simp add: getUserProfile_fetch_def fetch_def json_def
      split: fetched.splits option.splits)

lemma renderProfile_eq:
  "renderProfile p user repos s = (Inl e, s') \<longleftrightarrow> profileHTML p user repos = Inl e \<and> s' = s"
  "renderProfile p user repos s = (Inr x, s') \<longleftrightarrow>
     (\<exists>html. profileHTML p user repos = Inr html \<and> s' = s\<lparr>display := html\<rparr>)"
  by (auto simp: renderProfile_def split: sum.splits)

lemma requests_renderProfile [simp]:
  "requests (snd (renderProfile p user repos s)) = requests s"
  by (simp add: renderProfile_def split: sum.splits)














lemma getUserProfile_try_requests:
  "requests (snd (getUserProfile_try p net u s)) = requests (snd (getUserProfile_fetch net u s))"
  by (cases "getUserProfile_fetch net u s" rule: prod.exhaust [case_names Pair])
    (auto simp: getUserProfile_try_def split: sum.splits)

lemma getUserProfile_requests:
  "requests (getUserProfile p net u s) = requests (snd (getUserProfile_fetch net u s))"
proof -
  have "requests (getUserProfile p net u s) = requests (snd (getUserProfile_try p net u s))"
    by (cases "getUserProfile_try p net u s" rule: prod.exhaust [case_names Pair])
      (auto simp: getUserProfile_def split: sum.splits)
  then show ?thesis by (simp add: getUserProfile_try_requests)
qed

lemma issued_append [simp]: "issued s (s'\<lparr>requests := requests s @ xs\<rparr>) = xs"
  by (simp add: issued_def)

lemma issued_getUserProfile:
  "issued s (getUserProfile p net u s) =
     (if \<exists>r user. net (userUrl u) = Resolves r \<and> ok r \<and> body r = Some user
      then [userUrl u, reposUrl u] else [userUrl u])"
  by (simp add: issued_def getUserProfile_requests getUserProfile_fetch_eq
      split: fetched.splits option.splits)

lemma trim_empty_iff: "trim q = [] \<longleftrightarrow> (\<forall>c \<in> set q. isWhiteSpace c)"
proof
  assume "trim q = []"
  then have *: "\<forall>c \<in> set (dropWhile isWhiteSpace q). isWhiteSpace c"
    by (simp add: trim_def dropWhile_eq_Nil_conv)
  have "dropWhile isWhiteSpace q = []"
  proof (rule ccontr)
    assume n: "dropWhile isWhiteSpace q \<noteq> []"
    then have "\<not> isWhiteSpace (hd (dropWhile isWhiteSpace q))" by (rule hd_dropWhile)
    moreover from n have "hd (dropWhile isWhiteSpace q) \<in> set (dropWhile isWhiteSpace q)"
      by simp
    ultimately show False using * by blast
  qed
  then show "\<forall>c \<in> set q. isWhiteSpace c" unfolding dropWhile_eq_Nil_conv .
next
  assume "\<forall>c \<in> set q. isWhiteSpace c"
  then have "dropWhile isWhiteSpace q = []" unfolding dropWhile_eq_Nil_conv .
  then show "trim q = []" by (simp add: trim_def del: dropWhile_eq_Nil_conv)
qed


lemma display_getUserProfile:
  "display (getUserProfile p net u s) = errorPanel
   \<or> (\<exists>user repos. profileHTML p user repos = Inr (display (getUserProfile p net u s)))"
proof (cases "getUserProfile_try p net u s" rule: prod.exhaust [case_names Pair])
  case (Pair r s')
  show ?thesis
  proof (cases r)
    case (Inl e)
    with Pair show ?thesis by (simp add: getUserProfile_def)
  next
    case (Inr x)
    with Pair have g: "getUserProfile p net u s = s'" by (simp add: getUserProfile_def)
    obtain r1 s1 where f: "getUserProfile_fetch net u s = (r1, s1)"
      by (cases "getUserProfile_fetch net u s")
    with Pair Inr obtain user repos where "renderProfile p user repos s1 = (Inr x, s')"
      by (cases r1) (auto simp: getUserProfile_try_def)
    then obtain html where "profileHTML p user repos = Inr html" "s' = s1\<lparr>display := html\<rparr>"
      unfolding renderProfile_eq by blast
    with g show ?thesis by auto
  qed
qed

lemma fetch_result_independent:
  "fst (getUserProfile_fetch net u s) = fst (getUserProfile_fetch net u s0)"
  unfolding getUserProfile_fetch_eq
  by (simp split: fetched.splits option.splits)

lemma display_getUserProfile_eq:
  "display (getUserProfile p net u s) =
     (case fst (getUserProfile_fetch net u s) of
        Inl e \<Rightarrow> errorPanel
      | Inr d \<Rightarrow>
          (case profileHTML p (fst d) (snd d) of Inl e \<Rightarrow> errorPanel | Inr html \<Rightarrow> html))"
proof (cases "getUserProfile_fetch net u s" rule: prod.exhaust [case_names Pair])
  case (Pair r s1)
  show ?thesis
  proof (cases r)
    case (Inl e)
    with Pair show ?thesis by (simp add: getUserProfile_def getUserProfile_try_def)
  next
    case (Inr d)
    obtain user repos where d: "d = (user, repos)" by (cases d)
    with Pair Inr show ?thesis
      by (cases "profileHTML p user repos")
        (simp_all add: getUserProfile_def getUserProfile_try_def renderProfile_def)
  qed
qed

lemma display_independent:
  "display (getUserProfile p net u s) = display (getUserProfile p net u s0)"
  unfolding display_getUserProfile_eq fetch_result_independent [of net u s s0] ..




text \<open>The listener of the second script: whatever the text field holds, one request is issued.\<close>

lemma draft_onSubmit_requests:
  "requests (snd (draft_onSubmit net s)) = requests s @ [userUrl (input_value s)]
   \<and> display (snd (draft_onSubmit net s)) = display s"
  by (simp add: draft_onSubmit_def fetch_def json_def split: fetched.splits option.splits)


section \<open>Facts about the view on the store\<close>

text \<open>
  Run on valid addresses, the view on the store computes what the view on values computes
  from the two cells, and the store it leaves is the store it found, followed by the
  array that \<^verbatim>\<open>map\<close> created (if it got that far).
\<close>

lemma mapThrowing_cong_set:
  "(\<And>x. x \<in> set xs \<Longrightarrow> f x = g x) \<Longrightarrow> mapThrowing f xs = mapThrowing g xs"
  by (induction xs) (simp_all split: sum.splits)

lemma mapThrowing_map: "mapThrowing f (map g xs) = mapThrowing (\<lambda>x. f (g x)) xs"
  by (induction xs) (simp_all split: sum.splits)

lemma mapThrowing_indices:
  "mapThrowing (\<lambda>i. f (xs ! i)) [0..<length xs] = mapThrowing f xs"
proof -
  have "mapThrowing f (map (\<lambda>i. xs ! i) [0..<length xs]) = mapThrowing f xs"
    by (simp add: map_nth)
  then show ?thesis by (simp add: mapThrowing_map)
qed

lemma mapThrowing_strings:
  "mapThrowing (\<lambda>x. if x = JUndefined \<or> x = JNull then Inr [] else toStr p x) (map JStr cs)
     = Inr cs"
  by (induction cs) simp_all

lemma joinEmpty_strings: "joinEmpty p (JArr (map JStr cs)) = Inr (concat cs)"
  by (simp add: joinEmpty_def mapThrowing_strings)

lemma repoCardS_elements:
  "a < length st \<Longrightarrow> st ! a = JArr rs \<Longrightarrow>
   mapThrowing (repoCardS p st a) [0..<length rs] = mapThrowing (repoCard p) rs"
proof -
  assume a: "a < length st" "st ! a = JArr rs"
  have "mapThrowing (repoCardS p st a) [0..<length rs]
      = mapThrowing (\<lambda>i. repoCard p (rs ! i)) [0..<length rs]"
    by (rule mapThrowing_cong_set) (simp add: repoCardS_def element_def cell_def a)
  then show ?thesis by (simp add: mapThrowing_indices)
qed

lemma reposHTMLS_eq:
  assumes "a < length st"
  shows "reposHTMLS p a st =
     (case st ! a of
        JArr rs \<Rightarrow>
          (case mapThrowing (repoCard p) rs of
             Inl e \<Rightarrow> (Inl e, st)
           | Inr cards \<Rightarrow> (Inr (concat cards), st @ [JArr (map JStr cards)]))
      | _ \<Rightarrow> (Inl TypeError, st))"
proof (cases "st ! a")
  case (JArr rs)
  with assms show ?thesis
    by (simp add: reposHTMLS_def repoCardS_elements cell_def alloc_def joinEmpty_strings
        split: sum.splits)
qed (use assms in \<open>simp_all add: reposHTMLS_def cell_def\<close>)

lemma reposHTMLS_result:
  "a < length st \<Longrightarrow> fst (reposHTMLS p a st) = reposHTML p (st ! a)"
  by (cases "st ! a") (auto simp: reposHTMLS_eq split: sum.splits)

lemma reposHTMLS_store:
  "a < length st \<Longrightarrow> \<exists>new. snd (reposHTMLS p a st) = st @ new"
  by (cases "st ! a") (auto simp: reposHTMLS_eq split: sum.splits)

lemma renderProfileS_eq:
  assumes "user < length st" "repos < length st"
  shows "\<exists>new. renderProfileS p user repos (st, s)
     = (case profileHTML p (st ! user) (st ! repos) of
          Inl e \<Rightarrow> (Inl e, (st @ new, s))
        | Inr html \<Rightarrow> (Inr (), (st @ new, s\<lparr>display := html\<rparr>)))"
proof -
  obtain r st1 where r: "reposHTMLS p repos st = (r, st1)" by (cases "reposHTMLS p repos st")
  from reposHTMLS_store [OF assms(2), of p] r obtain new where new: "st1 = st @ new" by auto
  from reposHTMLS_result [OF assms(2), of p] r have res: "r = reposHTML p (st ! repos)" by simp
  from assms(1) new have u: "cell st1 user = st ! user" by (simp add: cell_def nth_append)
  from assms(1) have u0: "cell st user = st ! user" by (simp add: cell_def)
  show ?thesis
  proof (cases "\<exists>joinedDate. (case getProp (st ! user) ''created_at'' of Inl e \<Rightarrow> Inl e | Inr c \<Rightarrow> formatDate (longDate p) p c) = Inr joinedDate")
    case True
    then show ?thesis
      using r res u u0 new
      by (intro exI [of _ new]) (auto simp: renderProfileS_def profileHTML_def split: sum.splits)
  next
    case False
    then show ?thesis
      using u0
      by (intro exI [of _ "[]"]) (auto simp: renderProfileS_def profileHTML_def split: sum.splits)
  qed
qed

section \<open>The claims about the controller\<close>

text \<open>
  Claim C1. Whenever the answer to the profile request has a status that is not a success
  (404, the not-found status, is one), the \<^verbatim>\<open>try\<close> block ends at once with the exception
  \<^verbatim>\<open>Error("User not found")\<close>, the profile request is the only request of the query, and
  the repository request is not among the requests issued. If the repository request is
  issued at all, it is the second request and the profile request has succeeded before
  it: it resolved with a success status and a body that parsed.
\<close>

theorem not_found_ends_query_before_repos_request:
  "(\<forall>r. net (userUrl u) = Resolves r \<longrightarrow> \<not> ok r \<longrightarrow>
      getUserProfile_try p net u s
        = (Inl (Error ''User not found''), s\<lparr>requests := requests s @ [userUrl u]\<rparr>)
      \<and> issued s (getUserProfile p net u s) = [userUrl u]
      \<and> reposUrl u \<notin> set (issued s (getUserProfile p net u s)))
   \<and> (\<forall>r :: 'n response. status r = 404 \<longrightarrow> \<not> ok r)
   \<and> (reposUrl u \<in> set (issued s (getUserProfile p net u s)) \<longrightarrow>
        issued s (getUserProfile p net u s) = [userUrl u, reposUrl u]
        \<and> (\<exists>r user. net (userUrl u) = Resolves r \<and> ok r \<and> body r = Some user))"
proof (intro conjI allI impI)
  fix r assume r: "net (userUrl u) = Resolves r" "\<not> ok r"
  then show "getUserProfile_try p net u s
        = (Inl (Error ''User not found''), s\<lparr>requests := requests s @ [userUrl u]\<rparr>)"
    by (simp add: getUserProfile_try_def getUserProfile_fetch_eq)
  from r show i: "issued s (getUserProfile p net u s) = [userUrl u]"
    by (auto simp: issued_getUserProfile)
  from userUrl_neq_reposUrl [of u]
  show "reposUrl u \<notin> set (issued s (getUserProfile p net u s))"
    unfolding i by auto
next
  fix r :: "'n response" assume "status r = 404"
  then show "\<not> ok r" by (simp add: ok_def)
next
  assume a: "reposUrl u \<in> set (issued s (getUserProfile p net u s))"
  with userUrl_neq_reposUrl [of u]
  have e: "\<exists>r user. net (userUrl u) = Resolves r \<and> ok r \<and> body r = Some user"
    unfolding issued_getUserProfile by (auto split: if_splits)
  then show "\<exists>r user. net (userUrl u) = Resolves r \<and> ok r \<and> body r = Some user" .
  from e show "issued s (getUserProfile p net u s) = [userUrl u, reposUrl u]"
    unfolding issued_getUserProfile by simp
qed

theorem not_found_ends_query_before_repos_request_witness:
  "getUserProfile_try examplePlatform
     (serving ''nobody'' (answer 404 (JObj [(''message'', JStr ''Not Found'')]))
        (answer 200 (JArr [])))
     ''nobody'' (freshPage ''nobody'')
     = (Inl (Error ''User not found''),
        (freshPage ''nobody'')\<lparr>requests := [''https://api.github.com/users/nobody'']\<rparr>)
   \<and> issued (freshPage ''nobody'')
       (getUserProfile examplePlatform
          (serving ''nobody'' (answer 404 (JObj [(''message'', JStr ''Not Found'')]))
             (answer 200 (JArr [])))
          ''nobody'' (freshPage ''nobody''))
       = [''https://api.github.com/users/nobody'']
   \<and> reposUrl ''octocat''
       \<in> set (issued (freshPage ''octocat'')
            (getUserProfile examplePlatform
               (serving ''octocat'' (answer 200 (exampleUser [])) (answer 200 (JArr [])))
               ''octocat'' (freshPage ''octocat'')))
   \<and> issued (freshPage ''octocat'')
       (getUserProfile examplePlatform
          (serving ''octocat'' (answer 200 (exampleUser [])) (answer 200 (JArr [])))
          ''octocat'' (freshPage ''octocat''))
       = [''https://api.github.com/users/octocat'',
          ''https://api.github.com/users/octocat/repos?sort=updated&per_page=6'']"
proof -
  let ?net = "serving ''nobody'' (answer 404 (JObj [(''message'', JStr ''Not Found'')]))
        (answer 200 (JArr [])) :: nat network"
  let ?r = "\<lparr>status = 404, body = Some (JObj [(''message'', JStr ''Not Found'')])\<rparr>
      :: nat response"
  have 1: "?net (userUrl ''nobody'') = Resolves ?r"
    by (simp add: serving_def answer_def)
  have 2: "\<not> ok ?r"
    by (rule not_found_ends_query_before_repos_request
          [THEN conjunct2, THEN conjunct1, rule_format]) simp
  from not_found_ends_query_before_repos_request
    [of ?net "''nobody''" examplePlatform "freshPage ''nobody''",
      THEN conjunct1, rule_format, OF 1 2]
  have 3: "getUserProfile_try examplePlatform ?net ''nobody'' (freshPage ''nobody'')
     = (Inl (Error ''User not found''),
        (freshPage ''nobody'')\<lparr>requests := [''https://api.github.com/users/nobody'']\<rparr>)"
    and 4: "issued (freshPage ''nobody'')
       (getUserProfile examplePlatform ?net ''nobody'' (freshPage ''nobody''))
       = [''https://api.github.com/users/nobody'']"
    by (simp_all add: userUrl_def freshPage_def)
  let ?net' = "serving ''octocat'' (answer 200 (exampleUser [])) (answer 200 (JArr []))
      :: nat network"
  let ?s' = "freshPage ''octocat''"
  have 5: "reposUrl ''octocat''
      \<in> set (issued ?s' (getUserProfile examplePlatform ?net' ''octocat'' ?s'))"
    by (simp add: issued_getUserProfile serving_def answer_def ok_def)
  from not_found_ends_query_before_repos_request
    [of ?net' "''octocat''" examplePlatform ?s', THEN conjunct2, THEN conjunct2, rule_format,
      OF 5]
  have 6: "issued ?s' (getUserProfile examplePlatform ?net' ''octocat'' ?s')
       = [''https://api.github.com/users/octocat'',
          ''https://api.github.com/users/octocat/repos?sort=updated&per_page=6'']"
    by (simp add: userUrl_def reposUrl_def)
  from 3 4 5 6 show ?thesis by blast
qed

text \<open>
  The submit listener of \<^verbatim>\<open>src/main.js\<close> (lines 23-30). A query is blank when trimming
  leaves nothing of it, which is the case exactly when it is empty or consists of white
  space only. Submitting a blank query there changes nothing: no request is issued and the
  display target keeps its content.
\<close>

lemma blank_query_issues_no_request:
  "(trim (input_value s) = [] \<longleftrightarrow> (\<forall>c \<in> set (input_value s). isWhiteSpace c))
   \<and> (trim (input_value s) = [] \<longrightarrow>
        onSubmit p net s = s
        \<and> issued s (onSubmit p net s) = []
        \<and> display (onSubmit p net s) = display s)"
  by (simp add: trim_empty_iff [symmetric] onSubmit_def issued_def)

lemma blank_query_issues_no_request_example:
  "trim ''   '' = []
   \<and> onSubmit examplePlatform (serving [] (answer 200 (JObj [])) (answer 200 (JArr [])))
       \<lparr>display = ''<p>before</p>'', input_value = ''   '', requests = [], console = []\<rparr>
     = \<lparr>display = ''<p>before</p>'', input_value = ''   '', requests = [], console = []\<rparr>"
proof -
  let ?s = "\<lparr>display = ''<p>before</p>'', input_value = ''   '', requests = [], console = []\<rparr>"
  have t: "trim (input_value ?s) = []"
    by (simp add: trim_def isWhiteSpace_def)
  let ?net = "serving [] (answer 200 (JObj [])) (answer 200 (JArr [])) :: nat network"
  from blank_query_issues_no_request
    [where s = ?s and p = examplePlatform and net = ?net, THEN conjunct2, rule_format, OF t] t
  show ?thesis by simp
qed

text \<open>
  Claim C2. For every submitted query that is empty or white space only, no request is
  issued and the display target is left unchanged. The listener of \<^verbatim>\<open>src/main.js\<close> does
  that (the lemma above). The listener of the second script (its lines 10-13) does not: it
  has neither the \<^verbatim>\<open>trim\<close> nor the test, and for the empty text field it requests
  \<^verbatim>\<open>https://api.github.com/users/\<close>, whatever the network. The theorem evaluates both
  listeners at the empty query and at a query of three spaces.
\<close>

theorem draft_listener_requests_on_blank_query:
  "trim [] = [] \<and> trim ''   '' = []
   \<and> issued (freshPage []) (snd (draft_onSubmit net (freshPage [])))
       = [''https://api.github.com/users/'']
   \<and> issued (freshPage ''   '') (snd (draft_onSubmit net (freshPage ''   '')))
       = [''https://api.github.com/users/   '']
   \<and> onSubmit p net (freshPage []) = freshPage []
   \<and> onSubmit p net (freshPage ''   '') = freshPage ''   ''"
  by (simp add: draft_onSubmit_requests issued_def userUrl_def freshPage_def trim_def
      isWhiteSpace_def onSubmit_def)




text \<open>
  Claim C4. Whatever exception ends the \<^verbatim>\<open>try\<close> block, \<^verbatim>\<open>getUserProfile\<close> catches it and
  replaces the content of the display target by the one fixed error panel. After any
  query the display target holds either the error panel or a complete page produced by
  the view, never a part of one. The page then accepts a new query: a submission that is
  not blank issues requests and ends with the same display it would end with from any
  other state of the page.
\<close>

theorem failure_shows_error_panel:
  "(\<forall>e s'. getUserProfile_try p net u s = (Inl e, s') \<longrightarrow>
       getUserProfile p net u s = s'\<lparr>console := console s' @ [e], display := errorPanel\<rparr>
       \<and> display (getUserProfile p net u s) = errorPanel)
   \<and> (display (getUserProfile p net u s) = errorPanel
       \<or> (\<exists>user repos. profileHTML p user repos = Inr (display (getUserProfile p net u s))))
   \<and> (\<forall>q net' s0. trim q \<noteq> [] \<longrightarrow>
         display (onSubmit p net' ((getUserProfile p net u s)\<lparr>input_value := q\<rparr>))
           = display (getUserProfile p net' (trim q) s0)
         \<and> issued ((getUserProfile p net u s)\<lparr>input_value := q\<rparr>)
              (onSubmit p net' ((getUserProfile p net u s)\<lparr>input_value := q\<rparr>))
             \<noteq> [])"
proof (intro conjI allI impI)
  fix e s' assume t: "getUserProfile_try p net u s = (Inl e, s')"
  then show g: "getUserProfile p net u s
      = s'\<lparr>console := console s' @ [e], display := errorPanel\<rparr>"
    by (simp add: getUserProfile_def)
  then show "display (getUserProfile p net u s) = errorPanel" by simp
next
  show "display (getUserProfile p net u s) = errorPanel
       \<or> (\<exists>user repos. profileHTML p user repos = Inr (display (getUserProfile p net u s)))"
    by (rule display_getUserProfile)
next
  fix q net' s0 assume q: "trim q \<noteq> []"
  let ?s1 = "(getUserProfile p net u s)\<lparr>input_value := q\<rparr>"
  from q have o: "onSubmit p net' ?s1 = getUserProfile p net' (trim q) ?s1"
    by (simp add: onSubmit_def)
  show "display (onSubmit p net' ?s1) = display (getUserProfile p net' (trim q) s0)"
    unfolding o by (rule display_independent)
  show "issued ?s1 (onSubmit p net' ?s1) \<noteq> []"
    unfolding o issued_getUserProfile by simp
qed

theorem failure_shows_error_panel_witness:
  "display (getUserProfile examplePlatform
       (serving ''nobody'' (answer 404 (JObj [])) Rejects) ''nobody'' (freshPage ''nobody''))
     = errorPanel
   \<and> trim '' octocat '' = ''octocat''
   \<and> display (onSubmit examplePlatform
        (serving ''octocat'' (answer 200 (exampleUser [])) (answer 200 (JArr [])))
        ((getUserProfile examplePlatform
            (serving ''nobody'' (answer 404 (JObj [])) Rejects) ''nobody''
            (freshPage ''nobody''))\<lparr>input_value := '' octocat ''\<rparr>))
     = display (getUserProfile examplePlatform
        (serving ''octocat'' (answer 200 (exampleUser [])) (answer 200 (JArr [])))
        ''octocat'' (freshPage []))
   \<and> profileHTML examplePlatform (exampleUser []) (JArr [])
     = Inr (display (getUserProfile examplePlatform
        (serving ''octocat'' (answer 200 (exampleUser [])) (answer 200 (JArr [])))
        ''octocat'' (freshPage [])))"
proof -
  let ?n = "serving ''nobody'' (answer 404 (JObj [])) Rejects :: nat network"
  let ?n' = "serving ''octocat'' (answer 200 (exampleUser [])) (answer 200 (JArr []))
      :: nat network"
  let ?s = "freshPage ''nobody''"
  note T = failure_shows_error_panel [where p = examplePlatform and net = ?n and u = "''nobody''"
      and s = ?s]
  obtain e s' where t: "getUserProfile_try examplePlatform ?n ''nobody'' ?s = (Inl e, s')"
    by (simp add: getUserProfile_try_def getUserProfile_fetch_eq serving_def answer_def ok_def)
  from T [THEN conjunct1, rule_format, OF t]
  have 1: "display (getUserProfile examplePlatform ?n ''nobody'' ?s) = errorPanel" by simp
  have 2: "trim '' octocat '' = ''octocat''"
    by (simp add: trim_def isWhiteSpace_def)
  from T [THEN conjunct2, THEN conjunct2, rule_format, of "'' octocat ''" ?n' "freshPage []"]
  have 3: "display (onSubmit examplePlatform ?n'
        ((getUserProfile examplePlatform ?n ''nobody'' ?s)\<lparr>input_value := '' octocat ''\<rparr>))
     = display (getUserProfile examplePlatform ?n' ''octocat'' (freshPage []))"
    by (simp add: 2)
  have 4: "profileHTML examplePlatform (exampleUser []) (JArr [])
     = Inr (display (getUserProfile examplePlatform ?n' ''octocat'' (freshPage [])))"
    by (simp add: display_getUserProfile_eq getUserProfile_fetch_eq serving_def answer_def ok_def
        userUrl_def reposUrl_def example_simps)
  from 1 2 3 4 show ?thesis by blast
qed



section \<open>The claims about the view\<close>

text \<open>
  Claim C6. With the platform (locale and time zone) fixed, \<^verbatim>\<open>renderProfile\<close> is a pure
  function of the profile and the repositories. Let it run on a store in which \<^verbatim>\<open>user\<close>
  and \<^verbatim>\<open>repos\<close> are the addresses of two existing objects. Then its outcome and the text it
  assigns to the display target are those of \<open>profileHTML\<close> applied to the values of the two
  objects, whatever else the store and the page hold. Its only effect on the page is that
  assignment, and there is none when it throws. Every object that existed before the call
  is the same after it, the two arguments included: the store only grows, by the array
  that \<^verbatim>\<open>map\<close> returns. A second call right after the first has the same outcome and leaves
  the page as the first call left it. A call in any other store and page, at any
  addresses, where the two arguments have the same values, has the same outcome and
  displays the same text.
\<close>

theorem renderProfile_is_pure:
  assumes "user < length st" and "repos < length st"
    and "renderProfileS p user repos (st, s) = (r, (st', s'))"
  shows "(\<forall>html. profileHTML p (st ! user) (st ! repos) = Inr html \<longrightarrow>
            r = Inr () \<and> s' = s\<lparr>display := html\<rparr>)
       \<and> (\<forall>e. profileHTML p (st ! user) (st ! repos) = Inl e \<longrightarrow> r = Inl e \<and> s' = s)
       \<and> take (length st) st' = st
       \<and> st' ! user = st ! user \<and> st' ! repos = st ! repos
       \<and> fst (renderProfileS p user repos (st', s')) = r
       \<and> snd (snd (renderProfileS p user repos (st', s'))) = s'
       \<and> (\<forall>st2 s2 user2 repos2. user2 < length st2 \<longrightarrow> repos2 < length st2 \<longrightarrow>
             st2 ! user2 = st ! user \<longrightarrow> st2 ! repos2 = st ! repos \<longrightarrow>
             fst (renderProfileS p user2 repos2 (st2, s2)) = r
             \<and> display (snd (snd (renderProfileS p user2 repos2 (st2, s2))))
                 = (if r = Inr () then display s' else display s2))"
proof -
  from renderProfileS_eq [OF assms(1,2), of p s] assms(3) obtain new
    where run: "(r, (st', s'))
       = (case profileHTML p (st ! user) (st ! repos) of
            Inl e \<Rightarrow> (Inl e, (st @ new, s))
          | Inr html \<Rightarrow> (Inr (), (st @ new, s\<lparr>display := html\<rparr>)))"
    by auto
  then have st': "st' = st @ new" by (simp split: sum.splits)
  from run have 1: "\<forall>html. profileHTML p (st ! user) (st ! repos) = Inr html \<longrightarrow>
            r = Inr () \<and> s' = s\<lparr>display := html\<rparr>"
    by (simp split: sum.splits)
  from run have 2: "\<forall>e. profileHTML p (st ! user) (st ! repos) = Inl e \<longrightarrow> r = Inl e \<and> s' = s"
    by (simp split: sum.splits)
  from st' have 3: "take (length st) st' = st" by simp
  from st' assms(1,2) have 4: "st' ! user = st ! user" "st' ! repos = st ! repos"
    by (simp_all add: nth_append)
  from st' assms(1,2) have len: "user < length st'" "repos < length st'" by simp_all
  have other: "fst (renderProfileS p user2 repos2 (st2, s2)) = r
      \<and> snd (snd (renderProfileS p user2 repos2 (st2, s2)))
          = (if r = Inr () then s2\<lparr>display := display s'\<rparr> else s2)"
    if t: "user2 < length st2" "repos2 < length st2"
      "st2 ! user2 = st ! user" "st2 ! repos2 = st ! repos" for st2 s2 user2 repos2
  proof -
    from renderProfileS_eq [OF t(1,2), of p s2] obtain new2
      where "renderProfileS p user2 repos2 (st2, s2)
        = (case profileHTML p (st ! user) (st ! repos) of
            Inl e \<Rightarrow> (Inl e, (st2 @ new2, s2))
          | Inr html \<Rightarrow> (Inr (), (st2 @ new2, s2\<lparr>display := html\<rparr>)))"
      by (auto simp: t(3,4))
    with run show ?thesis by (auto split: sum.splits)
  qed
  from other [OF len 4, of s'] have 5: "fst (renderProfileS p user repos (st', s')) = r"
    and 6: "snd (snd (renderProfileS p user repos (st', s'))) = s'"
    using 1 2 by (cases "profileHTML p (st ! user) (st ! repos)"; simp)+
  from other have 7: "\<forall>st2 s2 user2 repos2. user2 < length st2 \<longrightarrow> repos2 < length st2 \<longrightarrow>
             st2 ! user2 = st ! user \<longrightarrow> st2 ! repos2 = st ! repos \<longrightarrow>
             fst (renderProfileS p user2 repos2 (st2, s2)) = r
             \<and> display (snd (snd (renderProfileS p user2 repos2 (st2, s2))))
                 = (if r = Inr () then display s' else display s2)"
    by simp
  from 1 2 3 4 5 6 7 show ?thesis by blast
qed

theorem renderProfile_is_pure_witness:
  "\<exists>html. profileHTML examplePlatform (exampleUser []) (JArr [exampleRepo ''hello'' []]) = Inr html
     \<and> renderProfileS examplePlatform 0 1
         ([exampleUser [], JArr [exampleRepo ''hello'' []]], freshPage ''octocat'')
       = (Inr (),
          ([exampleUser [], JArr [exampleRepo ''hello'' []], JArr [JStr (exampleCard ''hello'')]],
           (freshPage ''octocat'')\<lparr>display := html\<rparr>))
     \<and> renderProfileS examplePlatform 0 1
         ([exampleUser [], JArr [exampleRepo ''hello'' []], JArr [JStr (exampleCard ''hello'')]],
           (freshPage ''octocat'')\<lparr>display := html\<rparr>)
       = (Inr (),
          ([exampleUser [], JArr [exampleRepo ''hello'' []], JArr [JStr (exampleCard ''hello'')],
            JArr [JStr (exampleCard ''hello'')]],
           (freshPage ''octocat'')\<lparr>display := html\<rparr>))
     \<and> display (snd (snd (renderProfileS examplePlatform 1 0
         ([JArr [exampleRepo ''hello'' []], exampleUser []],
          \<lparr>display = errorPanel, input_value = ''x'', requests = [''y''],
            console = [TypeError]\<rparr>)))) = html"
proof -
  let ?u = "exampleUser [] :: nat jsval"
  let ?rs = "JArr [exampleRepo ''hello'' []] :: nat jsval"
  let ?cards = "JArr [JStr (exampleCard ''hello'')] :: nat jsval"
  let ?s = "freshPage ''octocat''"
  let ?s2 = "\<lparr>display = errorPanel, input_value = ''x'', requests = [''y''],
            console = [TypeError]\<rparr>"
  obtain html where html: "profileHTML examplePlatform ?u ?rs = Inr html"
    by (simp add: example_simps)
  have card: "repoCard examplePlatform (exampleRepo ''hello'' []) = Inr (exampleCard ''hello'')"
    by (simp add: example_simps exampleCard_def cardText_def)
  from html card have page: "template (pagePieces examplePlatform ?u ''January 25, 2011''
      (exampleCard ''hello'')) = Inr html"
    by (simp add: profileHTML_def formatDate_def exampleUser_def field_def examplePlatform_def)
  have created: "getProp ?u ''created_at'' = Inr (JStr ''2011-01-25T18:44:36Z'')"
    by (simp add: exampleUser_def field_def)
  have date: "formatDate (longDate examplePlatform) examplePlatform (JStr ''2011-01-25T18:44:36Z'')
      = Inr ''January 25, 2011''"
    by (simp add: formatDate_def examplePlatform_def)
  have cards: "reposHTMLS examplePlatform 1 (?u # ?rs # more)
      = (Inr (exampleCard ''hello''), (?u # ?rs # more) @ [?cards])" for more
    by (simp add: reposHTMLS_def cell_def repoCardS_def element_def card alloc_def
        joinEmpty_def)
  have run: "renderProfileS examplePlatform 0 1 ([?u, ?rs], ?s)
      = (Inr (), ([?u, ?rs, ?cards], ?s\<lparr>display := html\<rparr>))"
    using cards [of "[]"] by (simp add: renderProfileS_def cell_def created date page)
  note T = renderProfile_is_pure [OF _ _ run]
  have a: "(0::nat) < length [?u, ?rs]" "(1::nat) < length [?u, ?rs]" by simp_all
  note T' = T [OF a]
  have again: "renderProfileS examplePlatform 0 1 ([?u, ?rs, ?cards], ?s\<lparr>display := html\<rparr>)
      = (Inr (), ([?u, ?rs, ?cards, ?cards], ?s\<lparr>display := html\<rparr>))"
    using cards [of "[?cards]"] by (simp add: renderProfileS_def cell_def created date page)
  from T' [THEN conjunct2, THEN conjunct2, THEN conjunct2, THEN conjunct2, THEN conjunct2,
      THEN conjunct2, THEN conjunct2, rule_format, of 1 "[?rs, ?u]" 0 ?s2]
  have other: "display (snd (snd (renderProfileS examplePlatform 1 0 ([?rs, ?u], ?s2)))) = html"
    by simp
  from html run again other show ?thesis by blast
qed

text \<open>
  Claim C7. In every rendered profile, an absent optional field shows its fixed fallback
  text: an absent bio shows "This user has no bio.", an absent location shows "Earth", an
  absent name shows the login, and in the card of every repository an absent description
  shows "No description provided."; a present text that is not empty (such as the bio
  "Hello") is shown as it is. "Shows" means that the element of the page that encloses the field (the bio
  paragraph, the location span, the heading, the description paragraph of the card)
  stands in the output with that text as its content.
\<close>

theorem fallback_for_absent_fields:
  assumes html: "profileHTML p user (JArr repos) = Inr html"
  shows
    "(\<forall>b. getProp user ''bio'' = Inr b \<longrightarrow> absent b \<longrightarrow>
        sublist (bio_open @ ''This user has no bio.'' @ paragraph_close) html)
     \<and> (\<forall>l. getProp user ''location'' = Inr l \<longrightarrow> absent l \<longrightarrow>
        sublist (location_open @ ''Earth'' @ location_close) html)
     \<and> (\<forall>n login. getProp user ''name'' = Inr n \<longrightarrow> absent n \<longrightarrow>
        getProp user ''login'' = Inr (JStr login) \<longrightarrow>
        sublist (name_open @ login @ name_close) html)
     \<and> (\<forall>r d. r \<in> set repos \<longrightarrow> getProp r ''description'' = Inr d \<longrightarrow> absent d \<longrightarrow>
        (\<exists>c. repoCard p r = Inr c \<and> sublist c html
           \<and> sublist (description_open @ ''No description provided.'' @ paragraph_close) c))
     \<and> (\<forall>b. getProp user ''bio'' = Inr (JStr b) \<longrightarrow> b \<noteq> [] \<longrightarrow>
        sublist (bio_open @ b @ paragraph_close) html)
     \<and> (\<forall>l. getProp user ''location'' = Inr (JStr l) \<longrightarrow> l \<noteq> [] \<longrightarrow>
        sublist (location_open @ l @ location_close) html)
     \<and> (\<forall>n. getProp user ''name'' = Inr (JStr n) \<longrightarrow> n \<noteq> [] \<longrightarrow>
        sublist (name_open @ n @ name_close) html)
     \<and> (\<forall>r d. r \<in> set repos \<longrightarrow> getProp r ''description'' = Inr (JStr d) \<longrightarrow> d \<noteq> [] \<longrightarrow>
        (\<exists>c. repoCard p r = Inr c \<and> sublist c html
           \<and> sublist (description_open @ d @ paragraph_close) c))"
proof (intro conjI allI impI)
  fix b assume "getProp user ''bio'' = Inr b" "absent b"
  then have "propOr p user ''bio'' ''This user has no bio.'' = Inr ''This user has no bio.''"
    by (simp add: propOr_falsy absent_falsy)
  with bio_element [OF html]
  show "sublist (bio_open @ ''This user has no bio.'' @ paragraph_close) html" by auto
next
  fix l assume "getProp user ''location'' = Inr l" "absent l"
  then have "propOr p user ''location'' ''Earth'' = Inr ''Earth''"
    by (simp add: propOr_falsy absent_falsy)
  with location_element [OF html]
  show "sublist (location_open @ ''Earth'' @ location_close) html" by auto
next
  fix n login
  assume "getProp user ''name'' = Inr n" "absent n" "getProp user ''login'' = Inr (JStr login)"
  then have "nameOrLogin p user = Inr login"
    by (simp add: nameOrLogin_falsy absent_falsy propStr_value)
  with name_element [OF html]
  show "sublist (name_open @ login @ name_close) html" by auto
next
  fix r d assume r: "r \<in> set repos" and d: "getProp r ''description'' = Inr d" "absent d"
  from card_in_page [OF html r] obtain c where c: "repoCard p r = Inr c" "sublist c html"
    by blast
  from d have "propOr p r ''description'' ''No description provided.''
      = Inr ''No description provided.''"
    by (simp add: propOr_falsy absent_falsy)
  with description_element [OF c(1)]
  have "sublist (description_open @ ''No description provided.'' @ paragraph_close) c" by auto
  with c show "\<exists>c. repoCard p r = Inr c \<and> sublist c html
           \<and> sublist (description_open @ ''No description provided.'' @ paragraph_close) c"
    by blast
next
  fix b assume "getProp user ''bio'' = Inr (JStr b)" "b \<noteq> []"
  then have "propOr p user ''bio'' ''This user has no bio.'' = Inr b"
    by (simp add: propOr_truthy)
  with bio_element [OF html]
  show "sublist (bio_open @ b @ paragraph_close) html" by auto
next
  fix l assume "getProp user ''location'' = Inr (JStr l)" "l \<noteq> []"
  then have "propOr p user ''location'' ''Earth'' = Inr l"
    by (simp add: propOr_truthy)
  with location_element [OF html]
  show "sublist (location_open @ l @ location_close) html" by auto
next
  fix n assume "getProp user ''name'' = Inr (JStr n)" "n \<noteq> []"
  then have "nameOrLogin p user = Inr n"
    by (simp add: nameOrLogin_truthy)
  with name_element [OF html]
  show "sublist (name_open @ n @ name_close) html" by auto
next
  fix r d assume r: "r \<in> set repos" and d: "getProp r ''description'' = Inr (JStr d)" "d \<noteq> []"
  from card_in_page [OF html r] obtain c where c: "repoCard p r = Inr c" "sublist c html"
    by blast
  from d have "propOr p r ''description'' ''No description provided.'' = Inr d"
    by (simp add: propOr_truthy)
  with description_element [OF c(1)]
  have "sublist (description_open @ d @ paragraph_close) c" by auto
  with c show "\<exists>c. repoCard p r = Inr c \<and> sublist c html
           \<and> sublist (description_open @ d @ paragraph_close) c"
    by blast
qed


theorem fallback_for_absent_fields_witness:
  "\<exists>html html' c.
     profileHTML examplePlatform (exampleUser [(''bio'', JNull)])
       (JArr [exampleRepo ''hello'' [(''description'', JNull)]]) = Inr html
     \<and> sublist (bio_open @ ''This user has no bio.'' @ paragraph_close) html
     \<and> sublist (location_open @ ''Earth'' @ location_close) html
     \<and> sublist (name_open @ ''octocat'' @ name_close) html
     \<and> repoCard examplePlatform (exampleRepo ''hello'' [(''description'', JNull)]) = Inr c
     \<and> sublist c html
     \<and> sublist (description_open @ ''No description provided.'' @ paragraph_close) c
     \<and> profileHTML examplePlatform
           (exampleUser [(''bio'', JStr ''Hello''), (''name'', JStr ''The Octocat''),
              (''location'', JStr ''San Francisco'')])
           (JArr [exampleRepo ''hello'' [(''description'', JStr ''My first repository'')]])
         = Inr html'
     \<and> sublist (bio_open @ ''Hello'' @ paragraph_close) html'
     \<and> sublist (name_open @ ''The Octocat'' @ name_close) html'
     \<and> sublist (location_open @ ''San Francisco'' @ location_close) html'
     \<and> (\<exists>c'. repoCard examplePlatform
             (exampleRepo ''hello'' [(''description'', JStr ''My first repository'')]) = Inr c'
           \<and> sublist c' html'
           \<and> sublist (description_open @ ''My first repository'' @ paragraph_close) c')"
proof -
  let ?u = "exampleUser [(''bio'', JNull)]"
  let ?r = "exampleRepo ''hello'' [(''description'', JNull)]"
  let ?u' = "exampleUser [(''bio'', JStr ''Hello''), (''name'', JStr ''The Octocat''),
      (''location'', JStr ''San Francisco'')]"
  let ?r' = "exampleRepo ''hello'' [(''description'', JStr ''My first repository'')]"
  obtain html where html: "profileHTML examplePlatform ?u (JArr [?r]) = Inr html"
    by (simp add: example_simps)
  obtain html' where html': "profileHTML examplePlatform ?u' (JArr [?r']) = Inr html'"
    by (simp add: example_simps)
  note A = fallback_for_absent_fields [OF html]
  note B = fallback_for_absent_fields [OF html']
  have 1: "sublist (bio_open @ ''This user has no bio.'' @ paragraph_close) html"
    using A by (simp add: exampleUser_def field_def absent_def)
  have 2: "sublist (location_open @ ''Earth'' @ location_close) html"
    using A by (simp add: exampleUser_def field_def absent_def)
  have 3: "sublist (name_open @ ''octocat'' @ name_close) html"
    using A by (simp add: exampleUser_def field_def absent_def)
  have 4: "\<exists>c. repoCard examplePlatform ?r = Inr c \<and> sublist c html
      \<and> sublist (description_open @ ''No description provided.'' @ paragraph_close) c"
    using A by (simp add: exampleRepo_def field_def absent_def)
  have 5: "sublist (bio_open @ ''Hello'' @ paragraph_close) html'"
    using B by (simp add: exampleUser_def field_def)
  have 6: "sublist (name_open @ ''The Octocat'' @ name_close) html'"
    using B by (simp add: exampleUser_def field_def)
  have 7: "sublist (location_open @ ''San Francisco'' @ location_close) html'"
    using B by (simp add: exampleUser_def field_def)
  have 8: "\<exists>c'. repoCard examplePlatform ?r' = Inr c' \<and> sublist c' html'
      \<and> sublist (description_open @ ''My first repository'' @ paragraph_close) c'"
    using B by (simp add: exampleRepo_def field_def)
  from html html' 1 2 3 4 5 6 7 8 show ?thesis by blast
qed


text \<open>
  Claim C8. The card of a repository with no recorded language has no language indicator at
  all: the indicator's slot holds the empty text, so the chunks before and after it stand
  side by side, and the card differs from the card of the same repository with a language
  exactly by the indicator element. The card of a repository whose language is a text such
  as "Go" contains the indicator element with that text.
\<close>

theorem language_indicator_only_when_recorded:
  "(\<forall>kvs c lang. repoCard p (JObj kvs) = Inr c \<longrightarrow> absent (field kvs ''language'') \<longrightarrow>
       lang \<noteq> [] \<longrightarrow>
       languageIndicator p (JObj kvs) = Inr []
       \<and> (\<exists>pre post. c = pre @ card_5 @ card_6 @ post
            \<and> repoCard p (JObj ((''language'', JStr lang) # kvs))
                = Inr (pre @ card_5 @ language_open @ lang @ language_close @ card_6 @ post)))
   \<and> (\<forall>repo c lang. repoCard p repo = Inr c \<longrightarrow>
         getProp repo ''language'' = Inr (JStr lang) \<longrightarrow> lang \<noteq> [] \<longrightarrow>
         sublist (language_open @ lang @ language_close) c \<and> sublist lang c)"
proof (intro conjI allI impI)
  fix kvs c and lang :: string
  assume "repoCard p (JObj kvs) = Inr c" "absent (field kvs ''language'')" "lang \<noteq> []"
  then have *: "languageIndicator p (JObj kvs) = Inr []
     \<and> (\<exists>pre post. c = pre @ card_5 @ card_6 @ post
          \<and> repoCard p (JObj ((''language'', JStr lang) # kvs))
              = Inr (pre @ card_5 @ language_open @ lang @ language_close @ card_6 @ post))"
    by (intro card_without_language absent_falsy)
  from * show "languageIndicator p (JObj kvs) = Inr []" by (rule conjunct1)
  from * show "\<exists>pre post. c = pre @ card_5 @ card_6 @ post
          \<and> repoCard p (JObj ((''language'', JStr lang) # kvs))
              = Inr (pre @ card_5 @ language_open @ lang @ language_close @ card_6 @ post)"
    by (rule conjunct2)
next
  fix repo c and lang :: string
  assume c: "repoCard p repo = Inr c"
    and l: "getProp repo ''language'' = Inr (JStr lang)" "lang \<noteq> []"
  then show i: "sublist (language_open @ lang @ language_close) c"
    by (rule card_with_language)
  have "sublist lang (language_open @ lang @ language_close)" by simp
  then show "sublist lang c" using i by (rule sublist_order.order.trans)
qed

theorem language_indicator_only_when_recorded_witness:
  "\<exists>c pre post.
     repoCard examplePlatform (exampleRepo ''hello'' []) = Inr c
     \<and> getProp (exampleRepo ''hello'' []) ''language'' = Inr JUndefined
     \<and> languageIndicator examplePlatform (exampleRepo ''hello'' []) = Inr []
     \<and> c = pre @ card_5 @ card_6 @ post
     \<and> repoCard examplePlatform (exampleRepo ''hello'' [(''language'', JStr ''Go'')])
         = Inr (pre @ card_5 @ language_open @ ''Go'' @ language_close @ card_6 @ post)
     \<and> sublist (language_open @ ''Go'' @ language_close)
         (pre @ card_5 @ language_open @ ''Go'' @ language_close @ card_6 @ post)
     \<and> sublist ''Go''
         (pre @ card_5 @ language_open @ ''Go'' @ language_close @ card_6 @ post)"
proof -
  let ?r = "exampleRepo ''hello'' []"
  let ?r' = "exampleRepo ''hello'' [(''language'', JStr ''Go'')]"
  obtain kvs where k: "?r = JObj kvs" "?r' = JObj ((''language'', JStr ''Go'') # kvs)"
    by (simp add: exampleRepo_def)
  have g: "getProp ?r ''language'' = Inr JUndefined"
    by (simp add: exampleRepo_def field_def)
  then have a: "absent (field kvs ''language'')"
    unfolding k by (simp add: absent_def)
  have g': "getProp ?r' ''language'' = Inr (JStr ''Go'')"
    by (simp add: exampleRepo_def field_def)
  obtain c where c: "repoCard examplePlatform ?r = Inr c"
    by (simp add: example_simps)
  note T = language_indicator_only_when_recorded [of examplePlatform]
  from T [THEN conjunct1, rule_format, of kvs c "''Go''"] c a
  obtain pre post where 1: "languageIndicator examplePlatform ?r = Inr []"
    and 2: "c = pre @ card_5 @ card_6 @ post"
    and 3: "repoCard examplePlatform ?r'
        = Inr (pre @ card_5 @ language_open @ ''Go'' @ language_close @ card_6 @ post)"
    unfolding k by auto
  from T [THEN conjunct2, rule_format, OF 3 g']
  have 4: "sublist (language_open @ ''Go'' @ language_close)
         (pre @ card_5 @ language_open @ ''Go'' @ language_close @ card_6 @ post)"
    and 5: "sublist ''Go''
         (pre @ card_5 @ language_open @ ''Go'' @ language_close @ card_6 @ post)"
    by simp_all
  from c g 1 2 3 4 5 show ?thesis by blast
qed


text \<open>
  Claim C9. The fallback is chosen by truth value, not by absence: whenever the bio, the
  location, the name or a description is any false value, and the empty string is one
  although it is not absent, the page shows the fallback text (for the name: the login);
  whenever the value is a true one, the page shows the text of that value.
\<close>

theorem fallback_on_falsy_values:
  assumes html: "profileHTML p user (JArr repos) = Inr html"
  shows
    "\<not> toBoolean p (JStr []) \<and> \<not> absent (JStr [] :: 'n jsval)
     \<and> (\<forall>b. getProp user ''bio'' = Inr b \<longrightarrow> \<not> toBoolean p b \<longrightarrow>
        sublist (bio_open @ ''This user has no bio.'' @ paragraph_close) html)
     \<and> (\<forall>l. getProp user ''location'' = Inr l \<longrightarrow> \<not> toBoolean p l \<longrightarrow>
        sublist (location_open @ ''Earth'' @ location_close) html)
     \<and> (\<forall>n. getProp user ''name'' = Inr n \<longrightarrow> \<not> toBoolean p n \<longrightarrow>
        (\<exists>login. propStr p user ''login'' = Inr login
           \<and> sublist (name_open @ login @ name_close) html))
     \<and> (\<forall>r d. r \<in> set repos \<longrightarrow> getProp r ''description'' = Inr d \<longrightarrow> \<not> toBoolean p d \<longrightarrow>
        (\<exists>c. repoCard p r = Inr c \<and> sublist c html
           \<and> sublist (description_open @ ''No description provided.'' @ paragraph_close) c))
     \<and> (\<forall>b. getProp user ''bio'' = Inr b \<longrightarrow> toBoolean p b \<longrightarrow>
        (\<exists>x. toStr p b = Inr x \<and> sublist (bio_open @ x @ paragraph_close) html))
     \<and> (\<forall>l. getProp user ''location'' = Inr l \<longrightarrow> toBoolean p l \<longrightarrow>
        (\<exists>x. toStr p l = Inr x \<and> sublist (location_open @ x @ location_close) html))
     \<and> (\<forall>n. getProp user ''name'' = Inr n \<longrightarrow> toBoolean p n \<longrightarrow>
        (\<exists>x. toStr p n = Inr x \<and> sublist (name_open @ x @ name_close) html))
     \<and> (\<forall>r d. r \<in> set repos \<longrightarrow> getProp r ''description'' = Inr d \<longrightarrow> toBoolean p d \<longrightarrow>
        (\<exists>c x. repoCard p r = Inr c \<and> sublist c html \<and> toStr p d = Inr x
           \<and> sublist (description_open @ x @ paragraph_close) c))"
proof (intro conjI allI impI)
  show "\<not> toBoolean p (JStr [])" by simp
  show "\<not> absent (JStr [] :: 'n jsval)" by (simp add: absent_def)
next
  fix b assume "getProp user ''bio'' = Inr b" "\<not> toBoolean p b"
  then have "propOr p user ''bio'' ''This user has no bio.'' = Inr ''This user has no bio.''"
    by (simp add: propOr_falsy)
  with bio_element [OF html]
  show "sublist (bio_open @ ''This user has no bio.'' @ paragraph_close) html" by auto
next
  fix l assume "getProp user ''location'' = Inr l" "\<not> toBoolean p l"
  then have "propOr p user ''location'' ''Earth'' = Inr ''Earth''"
    by (simp add: propOr_falsy)
  with location_element [OF html]
  show "sublist (location_open @ ''Earth'' @ location_close) html" by auto
next
  fix n assume "getProp user ''name'' = Inr n" "\<not> toBoolean p n"
  then have "nameOrLogin p user = propStr p user ''login''"
    by (simp add: nameOrLogin_falsy)
  with name_element [OF html]
  show "\<exists>login. propStr p user ''login'' = Inr login
           \<and> sublist (name_open @ login @ name_close) html" by auto
next
  fix r d assume r: "r \<in> set repos" and d: "getProp r ''description'' = Inr d" "\<not> toBoolean p d"
  from card_in_page [OF html r] obtain c where c: "repoCard p r = Inr c" "sublist c html"
    by blast
  from d have "propOr p r ''description'' ''No description provided.''
      = Inr ''No description provided.''"
    by (simp add: propOr_falsy)
  with description_element [OF c(1)]
  have "sublist (description_open @ ''No description provided.'' @ paragraph_close) c" by auto
  with c show "\<exists>c. repoCard p r = Inr c \<and> sublist c html
           \<and> sublist (description_open @ ''No description provided.'' @ paragraph_close) c"
    by blast
next
  fix b assume "getProp user ''bio'' = Inr b" "toBoolean p b"
  then have "propOr p user ''bio'' ''This user has no bio.'' = toStr p b"
    by (simp add: propOr_truthy)
  with bio_element [OF html]
  show "\<exists>x. toStr p b = Inr x \<and> sublist (bio_open @ x @ paragraph_close) html" by auto
next
  fix l assume "getProp user ''location'' = Inr l" "toBoolean p l"
  then have "propOr p user ''location'' ''Earth'' = toStr p l"
    by (simp add: propOr_truthy)
  with location_element [OF html]
  show "\<exists>x. toStr p l = Inr x \<and> sublist (location_open @ x @ location_close) html" by auto
next
  fix n assume "getProp user ''name'' = Inr n" "toBoolean p n"
  then have "nameOrLogin p user = toStr p n"
    by (simp add: nameOrLogin_truthy)
  with name_element [OF html]
  show "\<exists>x. toStr p n = Inr x \<and> sublist (name_open @ x @ name_close) html" by auto
next
  fix r d assume r: "r \<in> set repos" and d: "getProp r ''description'' = Inr d" "toBoolean p d"
  from card_in_page [OF html r] obtain c where c: "repoCard p r = Inr c" "sublist c html"
    by blast
  from d have "propOr p r ''description'' ''No description provided.'' = toStr p d"
    by (simp add: propOr_truthy)
  with description_element [OF c(1)]
  obtain x where "toStr p d = Inr x" "sublist (description_open @ x @ paragraph_close) c"
    by auto
  with c show "\<exists>c x. repoCard p r = Inr c \<and> sublist c html \<and> toStr p d = Inr x
           \<and> sublist (description_open @ x @ paragraph_close) c"
    by blast
qed

theorem fallback_on_falsy_values_witness:
  "\<exists>html c html' c'.
     profileHTML examplePlatform
       (exampleUser [(''bio'', JStr []), (''location'', JStr []), (''name'', JStr [])])
       (JArr [exampleRepo ''hello'' [(''description'', JStr [])]]) = Inr html
     \<and> sublist (bio_open @ ''This user has no bio.'' @ paragraph_close) html
     \<and> sublist (location_open @ ''Earth'' @ location_close) html
     \<and> sublist (name_open @ ''octocat'' @ name_close) html
     \<and> repoCard examplePlatform (exampleRepo ''hello'' [(''description'', JStr [])]) = Inr c
     \<and> sublist c html
     \<and> sublist (description_open @ ''No description provided.'' @ paragraph_close) c
     \<and> profileHTML examplePlatform
         (exampleUser [(''bio'', JNum 7), (''location'', JBool True), (''name'', JStr ''Mona'')])
         (JArr [exampleRepo ''hello'' [(''description'', JStr ''Hi'')]]) = Inr html'
     \<and> sublist (bio_open @ ''7'' @ paragraph_close) html'
     \<and> sublist (location_open @ ''true'' @ location_close) html'
     \<and> sublist (name_open @ ''Mona'' @ name_close) html'
     \<and> repoCard examplePlatform (exampleRepo ''hello'' [(''description'', JStr ''Hi'')]) = Inr c'
     \<and> sublist c' html'
     \<and> sublist (description_open @ ''Hi'' @ paragraph_close) c'"
proof -
  let ?u = "exampleUser [(''bio'', JStr []), (''location'', JStr []), (''name'', JStr [])]"
  let ?r = "exampleRepo ''hello'' [(''description'', JStr [])]"
  obtain html where html: "profileHTML examplePlatform ?u (JArr [?r]) = Inr html"
    by (simp add: example_simps)
  note A = fallback_on_falsy_values [OF html]
  have 1: "sublist (bio_open @ ''This user has no bio.'' @ paragraph_close) html"
    using A by (elim conjE) (simp add: exampleUser_def field_def)
  have 2: "sublist (location_open @ ''Earth'' @ location_close) html"
    using A by (elim conjE) (simp add: exampleUser_def field_def)
  have "propStr examplePlatform ?u ''login'' = Inr ''octocat''"
    by (simp add: exampleUser_def field_def propStr_def)
  moreover have "\<exists>login. propStr examplePlatform ?u ''login'' = Inr login
      \<and> sublist (name_open @ login @ name_close) html"
    by (rule A [THEN conjunct2, THEN conjunct2, THEN conjunct2, THEN conjunct2, THEN conjunct1,
          rule_format, of "JStr []"])
      (simp_all add: exampleUser_def field_def)
  ultimately have 3: "sublist (name_open @ ''octocat'' @ name_close) html"
    by auto
  have 4: "\<exists>c. repoCard examplePlatform ?r = Inr c \<and> sublist c html
      \<and> sublist (description_open @ ''No description provided.'' @ paragraph_close) c"
    using A by (elim conjE) (simp add: exampleRepo_def field_def)
  let ?u' = "exampleUser [(''bio'', JNum 7), (''location'', JBool True), (''name'', JStr ''Mona'')]"
  let ?r' = "exampleRepo ''hello'' [(''description'', JStr ''Hi'')]"
  obtain html' where html': "profileHTML examplePlatform ?u' (JArr [?r']) = Inr html'"
    by (simp add: example_simps)
  note B = fallback_on_falsy_values [OF html']
  have 5: "sublist (bio_open @ ''7'' @ paragraph_close) html'"
    using B by (elim conjE) (simp add: exampleUser_def examplePlatform_def field_def decimal.simps)
  have 6: "sublist (location_open @ ''true'' @ location_close) html'"
    using B by (elim conjE) (simp add: exampleUser_def field_def)
  have 7: "sublist (name_open @ ''Mona'' @ name_close) html'"
    using B by (elim conjE) (simp add: exampleUser_def field_def)
  have 8: "\<exists>c'. repoCard examplePlatform ?r' = Inr c' \<and> sublist c' html'
      \<and> sublist (description_open @ ''Hi'' @ paragraph_close) c'"
    using B by (elim conjE) (simp add: exampleRepo_def field_def)
  from html html' 1 2 3 4 5 6 7 8 show ?thesis by blast
qed


text \<open>
  Claim C10. For an array of repositories of any length the view produces exactly one card
  per element, in the order of the array, and nothing is cut off: the cards' texts, one
  after the other, stand in the page between the chunks that open and close the grid, and
  the page a query displays is that page. Each card is the text of the card template, never
  empty, holding the address, name, visibility, description, language indicator and counts
  of its own repository. An array of more than six elements gives more than six cards.
\<close>

theorem one_card_per_repository:
  "(reposHTML p (JArr rs) = Inr h \<longleftrightarrow>
      (\<exists>cards. list_all2 (\<lambda>r c. repoCard p r = Inr c) rs cards \<and> h = concat cards))
   \<and> (profileHTML p user (JArr rs) = Inr html \<longrightarrow>
        (\<exists>pre post. html
           = pre @ page_12 @ concat (map (\<lambda>r. projr (repoCard p r)) rs) @ page_13 @ post)
        \<and> length (map (\<lambda>r. projr (repoCard p r)) rs) = length rs
        \<and> (\<forall>r \<in> set rs. projr (repoCard p r) \<noteq> []
             \<and> (\<exists>url name visibility description language stars forks updated.
                   propStr p r ''html_url'' = Inr url
                   \<and> propStr p r ''name'' = Inr name
                   \<and> propStr p r ''visibility'' = Inr visibility
                   \<and> propOr p r ''description'' ''No description provided.'' = Inr description
                   \<and> languageIndicator p r = Inr language
                   \<and> propStr p r ''stargazers_count'' = Inr stars
                   \<and> propStr p r ''forks_count'' = Inr forks
                   \<and> repoCard p r
                       = Inr (cardText url name visibility description language stars forks
                           updated))))
   \<and> (\<forall>a a' userData. net (userUrl u) = Resolves a \<longrightarrow> ok a \<longrightarrow> body a = Some userData \<longrightarrow>
        net (reposUrl u) = Resolves a' \<longrightarrow> body a' = Some (JArr rs) \<longrightarrow>
        profileHTML p userData (JArr rs) = Inr html \<longrightarrow>
        display (getUserProfile p net u s) = html)"
proof (intro conjI impI ballI allI)
  show "reposHTML p (JArr rs) = Inr h \<longleftrightarrow>
      (\<exists>cards. list_all2 (\<lambda>r c. repoCard p r = Inr c) rs cards \<and> h = concat cards)"
    using reposHTML_Inr [of p "JArr rs" h] by (simp del: reposHTML.simps)
next
  assume html: "profileHTML p user (JArr rs) = Inr html"
  from cards_in_page [OF html] obtain cards pre post
    where c: "list_all2 (\<lambda>r c. repoCard p r = Inr c) rs cards"
      and h: "html = pre @ page_12 @ concat cards @ page_13 @ post"
    by blast
  from c have "cards = map (\<lambda>r. projr (repoCard p r)) rs" by (rule cards_are_projr)
  with h show "\<exists>pre post. html
      = pre @ page_12 @ concat (map (\<lambda>r. projr (repoCard p r)) rs) @ page_13 @ post"
    by blast
next
  show "length (map (\<lambda>r. projr (repoCard p r)) rs) = length rs" by simp
next
  fix r assume html: "profileHTML p user (JArr rs) = Inr html" and r: "r \<in> set rs"
  from card_in_page [OF html r] obtain c where c: "repoCard p r = Inr c" by blast
  from repoCard_text [OF c] obtain url name visibility description language stars forks updated
    where t: "propStr p r ''html_url'' = Inr url" "propStr p r ''name'' = Inr name"
      "propStr p r ''visibility'' = Inr visibility"
      "propOr p r ''description'' ''No description provided.'' = Inr description"
      "languageIndicator p r = Inr language"
      "propStr p r ''stargazers_count'' = Inr stars" "propStr p r ''forks_count'' = Inr forks"
      and ct: "c = cardText url name visibility description language stars forks updated"
    by blast
  from c ct show "projr (repoCard p r) \<noteq> []" by (simp add: cardText_not_empty)
  from t c ct show "\<exists>url name visibility description language stars forks updated.
       propStr p r ''html_url'' = Inr url
       \<and> propStr p r ''name'' = Inr name
       \<and> propStr p r ''visibility'' = Inr visibility
       \<and> propOr p r ''description'' ''No description provided.'' = Inr description
       \<and> languageIndicator p r = Inr language
       \<and> propStr p r ''stargazers_count'' = Inr stars
       \<and> propStr p r ''forks_count'' = Inr forks
       \<and> repoCard p r
           = Inr (cardText url name visibility description language stars forks updated)"
    by blast
next
  fix a a' userData
  assume "net (userUrl u) = Resolves a" "ok a" "body a = Some userData"
    "net (reposUrl u) = Resolves a'" "body a' = Some (JArr rs)"
    "profileHTML p userData (JArr rs) = Inr html"
  then show "display (getUserProfile p net u s) = html"
    by (simp add: display_getUserProfile_eq getUserProfile_fetch_eq)
qed

theorem one_card_per_repository_witness:
  "\<exists>html pre post. profileHTML examplePlatform (exampleUser []) (JArr sevenRepos) = Inr html
     \<and> length sevenRepos = 7
     \<and> html = pre @ page_12
          @ concat (map exampleCard [''r1'', ''r2'', ''r3'', ''r4'', ''r5'', ''r6'', ''r7''])
          @ page_13 @ post
     \<and> repoCard examplePlatform (exampleRepo ''r7'' []) = Inr (exampleCard ''r7'')
     \<and> exampleCard ''r7'' \<noteq> []
     \<and> display (getUserProfile examplePlatform
          (serving ''octocat'' (answer 200 (exampleUser [])) (answer 200 (JArr sevenRepos)))
          ''octocat'' (freshPage ''octocat'')) = html"
proof -
  let ?n = "serving ''octocat'' (answer 200 (exampleUser [])) (answer 200 (JArr sevenRepos))
      :: nat network"
  obtain html where html: "profileHTML examplePlatform (exampleUser []) (JArr sevenRepos) = Inr html"
    by (simp add: example_simps sevenRepos_def)
  note T = one_card_per_repository [where p = examplePlatform and user = "exampleUser []"
      and rs = sevenRepos and html = html and net = ?n and u = "''octocat''"
      and s = "freshPage ''octocat''"]
  have card: "repoCard examplePlatform (exampleRepo n []) = Inr (exampleCard n)" for n
    by (simp add: example_simps exampleCard_def cardText_def)
  from T [THEN conjunct2, THEN conjunct1, rule_format, OF html, THEN conjunct1]
  have 1: "\<exists>pre post. html = pre @ page_12
          @ concat (map exampleCard [''r1'', ''r2'', ''r3'', ''r4'', ''r5'', ''r6'', ''r7''])
          @ page_13 @ post"
    by (simp add: sevenRepos_def card)
  have m: "exampleRepo ''r7'' [] \<in> set sevenRepos" by (simp add: sevenRepos_def)
  from T [THEN conjunct2, THEN conjunct1, rule_format, OF html, THEN conjunct2, THEN conjunct2,
      rule_format, OF m, THEN conjunct1]
  have 2: "exampleCard ''r7'' \<noteq> []" by (simp add: card)
  have 3: "display (getUserProfile examplePlatform ?n ''octocat'' (freshPage ''octocat'')) = html"
    by (rule T [THEN conjunct2, THEN conjunct2, rule_format,
          of "\<lparr>status = 200, body = Some (exampleUser [])\<rparr>" "exampleUser []"
            "\<lparr>status = 200, body = Some (JArr sevenRepos)\<rparr>"])
      (simp_all add: serving_def answer_def ok_def userUrl_def reposUrl_def html)
  have 4: "length sevenRepos = 7" by (simp add: sevenRepos_def)
  from html 1 2 3 4 card show ?thesis by blast
qed

end
